theory Spec2Isabelle
  imports Complex_Main
begin

chapter \<open>Hours-of-Service trip planner: a shallow embedding of the Python services\<close>

text \<open>
  The development follows the modules of \<^verbatim>\<open>backend/planner\<close>:
  \<^verbatim>\<open>services/hos.py\<close> (the day scheduler), the alert evaluator and the trip
  pipeline of \<^verbatim>\<open>services/trip_planner.py\<close>, \<^verbatim>\<open>services/logs.py\<close> (the duty
  segment validator) and the status mutation of \<^verbatim>\<open>schema/mutations.py\<close>.

  Conventions of the embedding.
  \<^item> A Python exception is a value of \<open>exn\<close>; a function that may raise returns
    \<open>exn + 'a\<close> with \<open>Inl\<close> for the raised exception.
  \<^item> Python floats are read as exact real numbers: \<open>+\<close>, \<open>-\<close>, \<open>min\<close>, \<open>max\<close> and the
    comparisons are the mathematical ones, so rounding error of the binary
    representation is not part of the model.
  \<^item> The database is a record of tables (lists of rows) that is passed in and
    returned; \<open>transaction.atomic\<close> restores the tables it was entered with when
    its body raises.
  \<^item> Logging calls have no effect on results and are left out.
\<close>

section \<open>Exceptions and Python helpers\<close>

datatype exn =
    HOSComputationError string
  | TripPlanningError string
  | RoutePlannerError string
  | ValidationError string
  | PermissionDenied string
  | IntegrityError string
  | KeyError string
  | ValueError string

text \<open>
  Python's \<^verbatim>\<open>round(x)\<close> on a float: the nearest integer, a tie going to the even
  neighbour.
\<close>

definition py_round :: "real \<Rightarrow> int" where
  "py_round x =
     (let f = \<lfloor>x\<rfloor>; d = x - of_int f
      in if d < 1 / 2 then f
         else if 1 / 2 < d then f + 1
         else if even f then f else f + 1)"

text \<open>\<^verbatim>\<open>round(x, 2)\<close>: two decimal places.\<close>

definition py_round2 :: "real \<Rightarrow> real" where
  "py_round2 x = of_int (py_round (x * 100)) / 100"

section \<open>The day scheduler (services/hos.py)\<close>

definition DRIVING_LIMIT_PER_DAY :: real where
  "DRIVING_LIMIT_PER_DAY = 11"

definition ON_DUTY_LIMIT_PER_DAY :: real where
  "ON_DUTY_LIMIT_PER_DAY = 14"

definition CYCLE_LIMIT_HOURS :: real where
  "CYCLE_LIMIT_HOURS = 70"

definition MANDATORY_OFF_DUTY_HOURS :: real where
  "MANDATORY_OFF_DUTY_HOURS = 10"

definition ON_DUTY_BUFFER_HOURS :: real where
  "ON_DUTY_BUFFER_HOURS = 2"

record hos_segment =
  hs_status :: string
  hs_minutes :: int
  hs_remarks :: string

record DailyHosSummary =
  day_number :: int
  total_driving_minutes :: int
  total_on_duty_minutes :: int
  total_off_duty_minutes :: int
  total_sleeper_minutes :: int
  remaining_cycle_hours :: real
  segments :: "hos_segment list"

text \<open>
  The dictionary that \<^verbatim>\<open>as_payload\<close> builds and that the alert evaluator reads
  with \<^verbatim>\<open>payload.get(key)\<close>. A field is \<open>None\<close> when the key is absent (or holds
  \<^verbatim>\<open>None\<close>); numeric values are the numbers that \<^verbatim>\<open>float(...)\<close> makes of them.
\<close>

record log_payload =
  p_day_number :: "int option"
  p_total_driving_minutes :: "real option"
  p_total_driving_hours :: "real option"
  p_total_on_duty_minutes :: "real option"
  p_total_on_duty_hours :: "real option"
  p_total_off_duty_minutes :: "int option"
  p_total_sleeper_minutes :: "int option"
  p_remaining_cycle_hours :: "real option"
  p_segments :: "hos_segment list"
  p_notes :: "string list"

definition as_payload :: "DailyHosSummary \<Rightarrow> log_payload" where
  "as_payload s =
     \<lparr> p_day_number = Some (day_number s),
       p_total_driving_minutes = Some (of_int (total_driving_minutes s)),
       p_total_driving_hours = None,
       p_total_on_duty_minutes = Some (of_int (total_on_duty_minutes s)),
       p_total_on_duty_hours = None,
       p_total_off_duty_minutes = Some (total_off_duty_minutes s),
       p_total_sleeper_minutes = Some (total_sleeper_minutes s),
       p_remaining_cycle_hours = Some (py_round2 (remaining_cycle_hours s)),
       p_segments = segments s,
       p_notes = [''Automatic HOS plan generated. Review before dispatch.'',
                  ''Adjustments required for real-world constraints (traffic, loading).''] \<rparr>"

text \<open>
  One pass of the \<^verbatim>\<open>while\<close> loop appends a \<open>DailyHosSummary\<close>. The embedding keeps
  the two local variables \<^verbatim>\<open>planned_driving\<close> and \<^verbatim>\<open>planned_on_duty\<close> of that pass
  next to the summary, so that statements about the planned hours (which the
  summary only holds rounded to minutes) can be made about the loop's result.
\<close>

record planned_day =
  planned_driving :: real
  planned_on_duty :: real
  summary :: DailyHosSummary

definition make_summary :: "int \<Rightarrow> real \<Rightarrow> real \<Rightarrow> real \<Rightarrow> DailyHosSummary" where
  "make_summary day planned_drv planned_duty remaining_cycle =
     (let driving_minutes = py_round (planned_drv * 60);
          on_duty_minutes = py_round (planned_duty * 60);
          off_duty_minutes = py_round (MANDATORY_OFF_DUTY_HOURS * 60);
          sleeper_minutes = 0
      in \<lparr> day_number = day,
           total_driving_minutes = driving_minutes,
           total_on_duty_minutes = on_duty_minutes,
           total_off_duty_minutes = off_duty_minutes,
           total_sleeper_minutes = sleeper_minutes,
           remaining_cycle_hours = max remaining_cycle 0,
           segments =
             [\<lparr> hs_status = ''ON_DUTY'', hs_minutes = on_duty_minutes - driving_minutes,
                 hs_remarks = ''Pre/post-trip activities'' \<rparr>,
              \<lparr> hs_status = ''DRIVING'', hs_minutes = driving_minutes,
                 hs_remarks = ''Planned driving'' \<rparr>,
              \<lparr> hs_status = ''OFF_DUTY'', hs_minutes = off_duty_minutes,
                 hs_remarks = ''Rest'' \<rparr>] \<rparr>)"

text \<open>
  The loop of \<^verbatim>\<open>generate_driver_logs\<close>. A pass that plans fewer than 11 driving
  hours leaves \<^verbatim>\<open>remaining_hours\<close> or \<^verbatim>\<open>remaining_cycle\<close> at zero, and every other
  pass takes 11 hours off \<^verbatim>\<open>remaining_hours\<close>: this is the termination measure.
\<close>

function schedule_loop :: "int \<Rightarrow> real \<Rightarrow> real \<Rightarrow> planned_day list \<Rightarrow> planned_day list" where
  "schedule_loop day remaining_hours remaining_cycle summaries =
     (if remaining_hours > 0 \<and> remaining_cycle > 0 then
        (let planned_drv = min DRIVING_LIMIT_PER_DAY (min remaining_hours remaining_cycle);
             planned_duty = min (planned_drv + ON_DUTY_BUFFER_HOURS)
                              (min ON_DUTY_LIMIT_PER_DAY remaining_cycle)
         in schedule_loop (day + 1) (remaining_hours - planned_drv)
              (remaining_cycle - planned_duty)
              (summaries @
                [\<lparr> planned_driving = planned_drv, planned_on_duty = planned_duty,
                    summary = make_summary day planned_drv planned_duty
                                (remaining_cycle - planned_duty) \<rparr>]))
      else summaries)"
  by pat_completeness auto
termination
proof (relation "measure (\<lambda>(d, rh, rc, acc).
                   if rh > 0 \<and> rc > 0 then 1 + nat \<lceil>rh / 11\<rceil> else 0)")
  show "wf (measure (\<lambda>(d, rh, rc, acc).
                   if (rh::real) > 0 \<and> (rc::real) > 0 then 1 + nat \<lceil>rh / 11\<rceil> else 0))"
    by simp
next
  fix day :: int and remaining_hours remaining_cycle :: real
    and summaries :: "planned_day list" and x xa
  assume run: "0 < remaining_hours \<and> 0 < remaining_cycle"
    and x: "x = min DRIVING_LIMIT_PER_DAY (min remaining_hours remaining_cycle)"
    and xa: "xa = min (x + ON_DUTY_BUFFER_HOURS) (min ON_DUTY_LIMIT_PER_DAY remaining_cycle)"
  have step: "\<lceil>(remaining_hours - 11) / 11\<rceil> = \<lceil>remaining_hours / 11\<rceil> - 1"
    by (simp add: diff_divide_distrib)
  have pos: "0 < \<lceil>remaining_hours / 11\<rceil>"
    using run by simp
  show "((day + 1, remaining_hours - x, remaining_cycle - xa,
          summaries @
            [\<lparr> planned_driving = x, planned_on_duty = xa,
                summary = make_summary day x xa (remaining_cycle - xa) \<rparr>]),
         day, remaining_hours, remaining_cycle, summaries)
        \<in> measure (\<lambda>(d, rh, rc, acc).
                   if rh > 0 \<and> rc > 0 then 1 + nat \<lceil>rh / 11\<rceil> else 0)"
  proof (cases "x = 11")
    case True
    then show ?thesis
      using run step pos by (simp add: x xa)
  next
    case False
    then have "remaining_hours - x = 0 \<or> remaining_cycle - xa = 0"
      unfolding x xa DRIVING_LIMIT_PER_DAY_def ON_DUTY_BUFFER_HOURS_def
        ON_DUTY_LIMIT_PER_DAY_def
      by (auto simp: min_def split: if_splits)
    then show ?thesis
      using run by auto
  qed
qed

declare schedule_loop.simps [simp del]

text \<open>
  \<^verbatim>\<open>generate_driver_logs\<close> up to the list of summaries, each with its planned hours.
\<close>

definition plan_days :: "real \<Rightarrow> real \<Rightarrow> exn + planned_day list" where
  "plan_days total_trip_hours cycle_hours_used =
     (if total_trip_hours < 0 then
        Inl (HOSComputationError ''Trip duration must be non-negative.'')
      else
        (let cycle_hours_remaining = max (CYCLE_LIMIT_HOURS - cycle_hours_used) 0
         in if cycle_hours_remaining \<le> 0 then
              Inl (HOSComputationError
                     ''Driver has exhausted the 70-hour cycle. Trip cannot be scheduled.'')
            else
              (let hours_to_schedule = min total_trip_hours cycle_hours_remaining
               in if hours_to_schedule \<le> 0 then
                    Inl (HOSComputationError
                           ''No remaining hours available to schedule this trip.'')
                  else Inr (schedule_loop 1 hours_to_schedule cycle_hours_remaining []))))"

definition generate_driver_logs :: "real \<Rightarrow> real \<Rightarrow> exn + log_payload list" where
  "generate_driver_logs total_trip_hours cycle_hours_used =
     (case plan_days total_trip_hours cycle_hours_used of
        Inl e \<Rightarrow> Inl e
      | Inr days \<Rightarrow> Inr (map (\<lambda>d. as_payload (summary d)) days))"

section \<open>The alert evaluator (services/trip_planner.py)\<close>

text \<open>
  The message of an alert is an f-string; the embedding keeps which message it is
  together with the values that the f-string interpolates.
\<close>

datatype alert_text =
    DrivingExceedsLimit "int option" real
  | DrivingNearLimit "int option" real
  | OnDutyExceedsLimit "int option" real
  | OnDutyNearLimit "int option" real
  | CycleHoursExceeded
  | CycleHoursLow real "int option"
  | TripConsumesCycle
  | TripOverNinetyPercent

record alert =
  a_level :: string
  a_rule :: string
  a_message :: alert_text
  a_day_number :: "int option"

definition add_alert :: "alert list \<Rightarrow> string \<Rightarrow> string \<Rightarrow> alert_text \<Rightarrow> int option \<Rightarrow> alert list" where
  "add_alert alerts lvl rl msg day =
     alerts @ [\<lparr> a_level = lvl, a_rule = rl, a_message = msg, a_day_number = day \<rparr>]"

text \<open>
  The values that one pass of the loop over the payloads reads from its payload:
  the day number (\<^verbatim>\<open>int(payload.get("day_number", 0)) or None\<close>) and the driving and
  on-duty hours, taken from the minutes key or, failing that, from the hours key.
\<close>

definition payload_day_number :: "log_payload \<Rightarrow> int option" where
  "payload_day_number payload =
     (case p_day_number payload of
        None \<Rightarrow> None
      | Some n \<Rightarrow> if n = 0 then None else Some n)"

definition payload_driving :: "log_payload \<Rightarrow> real" where
  "payload_driving payload =
     (let driving_minutes_raw =
            (case p_total_driving_minutes payload of
               Some m \<Rightarrow> Some m
             | None \<Rightarrow> (case p_total_driving_hours payload of
                          Some h \<Rightarrow> Some (h * 60)
                        | None \<Rightarrow> None));
          driving_minutes = (case driving_minutes_raw of Some m \<Rightarrow> m | None \<Rightarrow> 0)
      in driving_minutes / 60)"

definition payload_on_duty :: "log_payload \<Rightarrow> real" where
  "payload_on_duty payload =
     (let on_duty_minutes_raw =
            (case p_total_on_duty_minutes payload of
               Some m \<Rightarrow> Some m
             | None \<Rightarrow> (case p_total_on_duty_hours payload of
                          Some h \<Rightarrow> Some (h * 60)
                        | None \<Rightarrow> None));
          on_duty_minutes = (case on_duty_minutes_raw of Some m \<Rightarrow> m | None \<Rightarrow> 0)
      in on_duty_minutes / 60)"

text \<open>The body of the loop over the payloads: the alerts of one day, appended.\<close>

definition evaluate_day :: "alert list \<Rightarrow> log_payload \<Rightarrow> alert list" where
  "evaluate_day alerts payload =
     (let day = payload_day_number payload;
          remaining_cycle = p_remaining_cycle_hours payload;
          driving = payload_driving payload;
          on_duty = payload_on_duty payload;
          alerts1 =
            (if driving > DRIVING_LIMIT_PER_DAY + 1 / 10 ^ 6 then
               add_alert alerts ''danger'' ''11-hour driving limit''
                 (DrivingExceedsLimit day driving) day
             else if driving \<ge> DRIVING_LIMIT_PER_DAY * 0.95 then
               add_alert alerts ''warning'' ''11-hour driving limit''
                 (DrivingNearLimit day driving) day
             else alerts);
          alerts2 =
            (if on_duty > ON_DUTY_LIMIT_PER_DAY + 1 / 10 ^ 6 then
               add_alert alerts1 ''danger'' ''14-hour on-duty window''
                 (OnDutyExceedsLimit day on_duty) day
             else if on_duty \<ge> ON_DUTY_LIMIT_PER_DAY * 0.95 then
               add_alert alerts1 ''warning'' ''14-hour on-duty window''
                 (OnDutyNearLimit day on_duty) day
             else alerts1)
      in (case remaining_cycle of
            None \<Rightarrow> alerts2
          | Some rc \<Rightarrow>
              if rc < - (1 / 10 ^ 6) then
                add_alert alerts2 ''danger'' ''70-hour/8-day cycle'' CycleHoursExceeded day
              else if rc \<le> 8 then
                add_alert alerts2 ''warning'' ''70-hour/8-day cycle'' (CycleHoursLow rc day) day
              else alerts2))"

definition entry_on_duty_hours :: "log_payload \<Rightarrow> real" where
  "entry_on_duty_hours entry =
     (case p_total_on_duty_minutes entry of
        Some m \<Rightarrow> m / 60
      | None \<Rightarrow> (case p_total_on_duty_hours entry of Some h \<Rightarrow> h | None \<Rightarrow> 0))"

definition evaluate_hos_alerts :: "log_payload list \<Rightarrow> real \<Rightarrow> alert list" where
  "evaluate_hos_alerts log_payloads cycle_hours_used =
     (let alerts = foldl evaluate_day [] log_payloads;
          projected_cycle_usage =
            cycle_hours_used + sum_list (map entry_on_duty_hours log_payloads)
      in if projected_cycle_usage \<ge> CYCLE_LIMIT_HOURS then
           add_alert alerts ''danger'' ''70-hour/8-day cycle'' TripConsumesCycle None
         else if projected_cycle_usage \<ge> CYCLE_LIMIT_HOURS * 0.9 then
           add_alert alerts ''warning'' ''70-hour/8-day cycle'' TripOverNinetyPercent None
         else alerts)"

section \<open>The stored entities (models.py)\<close>

text \<open>
  Rows are records and a table is the list of its rows. Primary keys and user
  references are natural numbers. A \<^verbatim>\<open>datetime.time\<close> parsed with the format
  \<^verbatim>\<open>%H:%M\<close> has no seconds and is kept as its minute of the day; a date is a day
  number.
\<close>

type_synonym user_id = nat
type_synonym time = nat
type_synonym date = nat

text \<open>A value of a request dictionary, as far as the services look at it.\<close>

datatype pyval = PyNone | PyStr string

record location =
  lat :: real
  lng :: real
  address :: string

record leg =
  leg_sequence :: nat
  from_stop_type :: string
  to_stop_type :: string
  from_location :: location
  to_location :: location
  leg_distance_miles :: real
  leg_duration_hours :: real

record itinerary =
  it_legs :: "leg list"
  it_total_distance_miles :: real
  it_total_duration_hours :: real
  it_hos_alerts :: "alert list"

definition TRIP_STATUS_PLANNED :: string where
  "TRIP_STATUS_PLANNED = ''PLANNED''"

definition TRIP_STATUS_IN_PROGRESS :: string where
  "TRIP_STATUS_IN_PROGRESS = ''IN_PROGRESS''"

definition TRIP_STATUS_COMPLETED :: string where
  "TRIP_STATUS_COMPLETED = ''COMPLETED''"

definition TRIP_STATUS_CANCELLED :: string where
  "TRIP_STATUS_CANCELLED = ''CANCELLED''"

record Trip =
  t_id :: nat
  t_user :: user_id
  t_start_location :: location
  t_pickup_location :: location
  t_dropoff_location :: location
  t_tractor_number :: string
  t_trailer_numbers :: "string list"
  t_carrier_names :: "string list"
  t_main_office_address :: string
  t_home_terminal_address :: string
  t_co_driver_name :: string
  t_shipper_name :: string
  t_commodity :: string
  t_status :: string
  t_cycle_hours_used :: real
  t_total_miles :: real
  t_total_hours :: real
  t_itinerary_summary :: "itinerary option"

record Route =
  r_id :: nat
  r_trip :: nat
  r_polyline :: string
  r_total_distance :: real
  r_estimated_duration :: real

record Stop =
  s_id :: nat
  s_route :: nat
  s_stop_type :: string
  s_location :: location
  s_duration_minutes :: int
  s_sequence :: nat
  s_distance_from_previous :: real
  s_duration_from_previous :: real

definition STATUS_OFF_DUTY :: string where
  "STATUS_OFF_DUTY = ''OFF_DUTY''"

definition STATUS_SLEEPER :: string where
  "STATUS_SLEEPER = ''SLEEPER_BERTH''"

definition STATUS_DRIVING :: string where
  "STATUS_DRIVING = ''DRIVING''"

definition STATUS_ON_DUTY :: string where
  "STATUS_ON_DUTY = ''ON_DUTY''"

record DriverLog =
  dl_id :: nat
  dl_trip :: nat
  dl_day_number :: int
  dl_log_date :: date
  dl_total_off_duty_minutes :: int
  dl_total_sleeper_minutes :: int
  dl_total_driving_minutes :: int
  dl_total_on_duty_minutes :: int
  dl_total_distance_miles :: real
  dl_notes :: string

record DutyStatusSegment =
  ds_id :: nat
  ds_log :: nat
  ds_status :: pyval
  ds_start_time :: time
  ds_end_time :: time
  ds_location :: string
  ds_activity :: string
  ds_remarks :: string

definition JOB_TYPE_PLAN_TRIP :: string where
  "JOB_TYPE_PLAN_TRIP = ''PLAN_TRIP''"

definition STATUS_PENDING :: string where
  "STATUS_PENDING = ''PENDING''"

definition STATUS_RUNNING :: string where
  "STATUS_RUNNING = ''RUNNING''"

definition STATUS_SUCCESS :: string where
  "STATUS_SUCCESS = ''SUCCESS''"

definition STATUS_FAILED :: string where
  "STATUS_FAILED = ''FAILED''"

text \<open>
  The payload of a job is the dictionary that \<^verbatim>\<open>enqueue_trip_job\<close> stores; a key
  that is absent reads as \<open>None\<close>.
\<close>

record job_payload =
  jp_start_location :: "location option"
  jp_pickup_location :: "location option"
  jp_dropoff_location :: "location option"
  jp_cycle_hours_used :: "real option"
  jp_tractor_number :: "string option"
  jp_trailer_numbers :: "string list option"
  jp_carrier_names :: "string list option"
  jp_main_office_address :: "string option"
  jp_home_terminal_address :: "string option"
  jp_co_driver_name :: "string option"
  jp_shipper_name :: "string option"
  jp_commodity :: "string option"

record BackgroundJob =
  j_id :: nat
  j_user :: "user_id option"
  j_job_type :: string
  j_status :: string
  j_payload :: job_payload
  j_result :: "(string \<times> nat) list"
  j_error_message :: string
  j_created_at :: nat

record database =
  db_trips :: "Trip list"
  db_routes :: "Route list"
  db_stops :: "Stop list"
  db_logs :: "DriverLog list"
  db_segments :: "DutyStatusSegment list"
  db_jobs :: "BackgroundJob list"

text \<open>The next primary key of a table: one more than the largest key in use.\<close>

definition fresh_id :: "nat list \<Rightarrow> nat" where
  "fresh_id ids = Suc (foldr max ids 0)"

text \<open>
  \<^verbatim>\<open>transaction.atomic\<close>: when the body raises, the exception passes on and the
  database is the one the block was entered with.
\<close>

definition atomic :: "(database \<Rightarrow> (exn + 'a) \<times> database) \<Rightarrow> database \<Rightarrow> (exn + 'a) \<times> database" where
  "atomic body db =
     (case body db of
        (Inl e, db') \<Rightarrow> (Inl e, db)
      | (Inr v, db') \<Rightarrow> (Inr v, db'))"

section \<open>The duty segment validator (services/logs.py)\<close>

definition FIFTEEN_MINUTES :: int where
  "FIFTEEN_MINUTES = 15"

definition MINUTES_PER_DAY :: int where
  "MINUTES_PER_DAY = 24 * 60"

definition VALID_STATUSES :: "pyval set" where
  "VALID_STATUSES =
     {PyStr STATUS_OFF_DUTY, PyStr STATUS_SLEEPER, PyStr STATUS_DRIVING, PyStr STATUS_ON_DUTY}"

record SegmentInput =
  si_status :: pyval
  si_start_time :: time
  si_end_time :: time
  si_location :: string
  si_activity :: string
  si_remarks :: string

definition duration_minutes :: "SegmentInput \<Rightarrow> int" where
  "duration_minutes seg = int (si_end_time seg) - int (si_start_time seg)"

text \<open>\<^verbatim>\<open>str(value)\<close>, as the f-string of the status message prints it.\<close>

definition py_str :: "pyval \<Rightarrow> string" where
  "py_str v = (case v of PyNone \<Rightarrow> ''None'' | PyStr s \<Rightarrow> s)"

definition validate :: "SegmentInput \<Rightarrow> exn + unit" where
  "validate seg =
     (if si_status seg \<notin> VALID_STATUSES then
        Inl (ValidationError
               (''Unsupported duty status '' @ [CHR 0x27] @ py_str (si_status seg) @ [CHR 0x27]))
      else if si_end_time seg \<le> si_start_time seg then
        Inl (ValidationError ''Segment end_time must be after start_time'')
      else
        (let minutes = duration_minutes seg
         in if minutes mod FIFTEEN_MINUTES \<noteq> 0 then
              Inl (ValidationError ''Duty segments must be in 15-minute increments'')
            else Inr ()))"

text \<open>
  \<^verbatim>\<open>_parse_time\<close>. The library call \<^verbatim>\<open>datetime.strptime(value, "%H:%M").time()\<close> is the
  parameter \<open>strptime\<close>: \<open>None\<close> where the library raises \<^verbatim>\<open>ValueError\<close>.
\<close>

definition parse_time :: "(string \<Rightarrow> time option) \<Rightarrow> string \<Rightarrow> pyval \<Rightarrow> exn + time" where
  "parse_time strptime label v =
     (case v of
        PyNone \<Rightarrow> Inl (ValidationError (''Missing '' @ label))
      | PyStr s \<Rightarrow>
          if s = [] then Inl (ValidationError (''Missing '' @ label))
          else (case strptime s of
                  None \<Rightarrow> Inl (ValidationError (''Invalid '' @ label @ '' format; expected HH:MM''))
                | Some t \<Rightarrow> Inr t))"

text \<open>
  A raw segment is a dictionary. \<^verbatim>\<open>raw.get(key)\<close> is \<open>dict_get\<close>, and
  \<^verbatim>\<open>raw.get(key, default)\<close> is \<open>dict_get_default\<close>, which falls back on the default
  only when the key is absent.
\<close>

type_synonym raw_segment = "string \<rightharpoonup> pyval"

definition dict_get :: "raw_segment \<Rightarrow> string \<Rightarrow> pyval" where
  "dict_get raw k = (case raw k of None \<Rightarrow> PyNone | Some v \<Rightarrow> v)"

definition dict_get_default :: "raw_segment \<Rightarrow> string \<Rightarrow> pyval \<Rightarrow> pyval" where
  "dict_get_default raw k dflt = (case raw k of None \<Rightarrow> dflt | Some v \<Rightarrow> v)"

text \<open>\<^verbatim>\<open>value or ""\<close> for a string or \<^verbatim>\<open>None\<close>.\<close>

definition or_empty :: "pyval \<Rightarrow> string" where
  "or_empty v = (case v of PyNone \<Rightarrow> [] | PyStr s \<Rightarrow> s)"

text \<open>The body of the loop of \<^verbatim>\<open>_normalise_segments\<close>, for one raw segment.\<close>

definition normalise_segment :: "(string \<Rightarrow> time option) \<Rightarrow> raw_segment \<Rightarrow> exn + SegmentInput" where
  "normalise_segment strptime raw =
     (let status = dict_get_default raw ''status'' (PyStr STATUS_OFF_DUTY)
      in case parse_time strptime ''startTime'' (dict_get raw ''startTime'') of
           Inl e \<Rightarrow> Inl e
         | Inr start_time \<Rightarrow>
             (case parse_time strptime ''endTime'' (dict_get raw ''endTime'') of
                Inl e \<Rightarrow> Inl e
              | Inr end_time \<Rightarrow>
                  (let segment =
                         \<lparr> si_status = status,
                           si_start_time = start_time,
                           si_end_time = end_time,
                           si_location = take 255 (or_empty (dict_get raw ''location'')),
                           si_activity = take 255 (or_empty (dict_get raw ''activity'')),
                           si_remarks = or_empty (dict_get raw ''remarks'') \<rparr>
                   in case validate segment of
                        Inl e \<Rightarrow> Inl e
                      | Inr _ \<Rightarrow> Inr segment)))"

fun normalise_segments :: "(string \<Rightarrow> time option) \<Rightarrow> raw_segment list \<Rightarrow> exn + SegmentInput list" where
  "normalise_segments strptime [] = Inr []"
| "normalise_segments strptime (raw # raw_segments) =
     (case normalise_segment strptime raw of
        Inl e \<Rightarrow> Inl e
      | Inr segment \<Rightarrow>
          (case normalise_segments strptime raw_segments of
             Inl e \<Rightarrow> Inl e
           | Inr segs \<Rightarrow> Inr (segment # segs)))"

text \<open>
  The dictionary \<^verbatim>\<open>totals\<close> has exactly the four status keys, so it is a record of
  four counters; \<^verbatim>\<open>totals[status] += minutes\<close> raises \<^verbatim>\<open>KeyError\<close> on any other key.
\<close>

record minute_totals =
  mt_off_duty :: int
  mt_sleeper :: int
  mt_driving :: int
  mt_on_duty :: int

definition add_minutes :: "pyval \<Rightarrow> int \<Rightarrow> minute_totals \<Rightarrow> exn + minute_totals" where
  "add_minutes status minutes totals =
     (if status = PyStr STATUS_OFF_DUTY then
        Inr (totals\<lparr> mt_off_duty := mt_off_duty totals + minutes \<rparr>)
      else if status = PyStr STATUS_SLEEPER then
        Inr (totals\<lparr> mt_sleeper := mt_sleeper totals + minutes \<rparr>)
      else if status = PyStr STATUS_DRIVING then
        Inr (totals\<lparr> mt_driving := mt_driving totals + minutes \<rparr>)
      else if status = PyStr STATUS_ON_DUTY then
        Inr (totals\<lparr> mt_on_duty := mt_on_duty totals + minutes \<rparr>)
      else Inl (KeyError (py_str status)))"

text \<open>
  The loop of \<^verbatim>\<open>upsert_driver_log\<close> over the parsed segments, with its three
  variables \<^verbatim>\<open>totals\<close>, \<^verbatim>\<open>minutes_cursor\<close> and \<^verbatim>\<open>last_segment_end\<close>.
\<close>

fun sum_segments :: "SegmentInput list \<Rightarrow> minute_totals \<Rightarrow> int \<Rightarrow> time option \<Rightarrow> exn + (minute_totals \<times> int)" where
  "sum_segments [] totals minutes_cursor last_segment_end = Inr (totals, minutes_cursor)"
| "sum_segments (segment # rest) totals minutes_cursor last_segment_end =
     (let minutes = duration_minutes segment
      in case add_minutes (si_status segment) minutes totals of
           Inl e \<Rightarrow> Inl e
         | Inr totals' \<Rightarrow>
             if (case last_segment_end of
                   None \<Rightarrow> False
                 | Some last_end \<Rightarrow> si_start_time segment < last_end)
             then Inl (ValidationError ''Duty segments may not overlap'')
             else sum_segments rest totals' (minutes_cursor + minutes) (Some (si_end_time segment)))"

text \<open>
  \<^verbatim>\<open>DriverLog.objects.get_or_create(trip=..., day_number=..., defaults=...)\<close>: the
  stored log of that trip and day, or a new row with the defaults of the model.
\<close>

definition get_or_create_log :: "nat \<Rightarrow> int \<Rightarrow> date \<Rightarrow> database \<Rightarrow> DriverLog \<times> database" where
  "get_or_create_log trip day log_date db =
     (case find (\<lambda>l. dl_trip l = trip \<and> dl_day_number l = day) (db_logs db) of
        Some l \<Rightarrow> (l, db)
      | None \<Rightarrow>
          (let l = \<lparr> dl_id = fresh_id (map dl_id (db_logs db)), dl_trip = trip,
                      dl_day_number = day, dl_log_date = log_date,
                      dl_total_off_duty_minutes = 0, dl_total_sleeper_minutes = 0,
                      dl_total_driving_minutes = 0, dl_total_on_duty_minutes = 0,
                      dl_total_distance_miles = 0, dl_notes = [] \<rparr>
           in (l, db\<lparr> db_logs := db_logs db @ [l] \<rparr>)))"

definition save_log :: "DriverLog \<Rightarrow> database \<Rightarrow> database" where
  "save_log l db =
     db\<lparr> db_logs := map (\<lambda>row. if dl_id row = dl_id l then l else row) (db_logs db) \<rparr>"

text \<open>
  \<^verbatim>\<open>DutyStatusSegment.objects.bulk_create\<close>: the new rows get consecutive fresh keys.
\<close>

fun make_duty_segments :: "nat \<Rightarrow> nat \<Rightarrow> SegmentInput list \<Rightarrow> DutyStatusSegment list" where
  "make_duty_segments log_id next_id [] = []"
| "make_duty_segments log_id next_id (segment # rest) =
     \<lparr> ds_id = next_id, ds_log = log_id, ds_status = si_status segment,
       ds_start_time = si_start_time segment, ds_end_time = si_end_time segment,
       ds_location = si_location segment, ds_activity = si_activity segment,
       ds_remarks = si_remarks segment \<rparr> # make_duty_segments log_id (Suc next_id) rest"

definition upsert_driver_log_body ::
  "(string \<Rightarrow> time option) \<Rightarrow> date \<Rightarrow> user_id \<Rightarrow> nat \<Rightarrow> int \<Rightarrow> date option \<Rightarrow> string option \<Rightarrow>
   raw_segment list \<Rightarrow> real option \<Rightarrow> database \<Rightarrow> (exn + DriverLog) \<times> database" where
  "upsert_driver_log_body strptime today user trip_id day log_date notes raw_segments
     total_distance_miles db =
     (if day \<le> 0 then (Inl (ValidationError ''dayNumber must be 1 or greater''), db)
      else
        (case find (\<lambda>t. t_id t = trip_id \<and> t_user t = user) (db_trips db) of
           None \<Rightarrow> (Inl (PermissionDenied ''Trip not found''), db)
         | Some trip \<Rightarrow>
             (case normalise_segments strptime raw_segments of
                Inl e \<Rightarrow> (Inl e, db)
              | Inr parsed_segments \<Rightarrow>
                  if parsed_segments = [] then
                    (Inl (ValidationError ''At least one duty segment is required''), db)
                  else
                    (case sum_segments parsed_segments
                            \<lparr> mt_off_duty = 0, mt_sleeper = 0, mt_driving = 0, mt_on_duty = 0 \<rparr>
                            0 None of
                       Inl e \<Rightarrow> (Inl e, db)
                     | Inr (totals, minutes_cursor) \<Rightarrow>
                         if minutes_cursor > MINUTES_PER_DAY then
                           (Inl (ValidationError ''Daily duty segments exceed 24 hours''), db)
                         else
                           (let log_date' = (case log_date of Some d \<Rightarrow> d | None \<Rightarrow> today);
                                (created, db1) = get_or_create_log (t_id trip) day log_date' db;
                                driver_log =
                                  created\<lparr> dl_log_date := log_date',
                                    dl_notes := (case notes of None \<Rightarrow> [] | Some n \<Rightarrow> n),
                                    dl_total_off_duty_minutes := mt_off_duty totals,
                                    dl_total_sleeper_minutes := mt_sleeper totals,
                                    dl_total_driving_minutes := mt_driving totals,
                                    dl_total_on_duty_minutes := mt_on_duty totals,
                                    dl_total_distance_miles :=
                                      (case total_distance_miles of
                                         None \<Rightarrow> dl_total_distance_miles created
                                       | Some miles \<Rightarrow> miles) \<rparr>;
                                db2 = save_log driver_log db1;
                                db3 = db2\<lparr> db_segments :=
                                        filter (\<lambda>s. ds_log s \<noteq> dl_id driver_log) (db_segments db2) \<rparr>;
                                duty_segments =
                                  make_duty_segments (dl_id driver_log)
                                    (fresh_id (map ds_id (db_segments db3))) parsed_segments;
                                db4 = db3\<lparr> db_segments := db_segments db3 @ duty_segments \<rparr>
                            in (Inr driver_log, db4))))))"

definition upsert_driver_log ::
  "(string \<Rightarrow> time option) \<Rightarrow> date \<Rightarrow> user_id \<Rightarrow> nat \<Rightarrow> int \<Rightarrow> date option \<Rightarrow> string option \<Rightarrow>
   raw_segment list \<Rightarrow> real option \<Rightarrow> database \<Rightarrow> (exn + DriverLog) \<times> database" where
  "upsert_driver_log strptime today user trip_id day log_date notes raw_segments
     total_distance_miles =
     atomic (upsert_driver_log_body strptime today user trip_id day log_date notes raw_segments
               total_distance_miles)"

text \<open>
  \<^verbatim>\<open>delete_driver_log\<close>. The query \<^verbatim>\<open>select_related("trip").get(id=log_id)\<close> joins the
  log with its trip, so it finds nothing when either row is missing; deleting the log
  deletes its segments with it (\<^verbatim>\<open>on_delete=CASCADE\<close>).
\<close>

definition delete_driver_log_body :: "user_id \<Rightarrow> nat \<Rightarrow> database \<Rightarrow> (exn + bool) \<times> database" where
  "delete_driver_log_body user log_id db =
     (case find (\<lambda>l. dl_id l = log_id) (db_logs db) of
        None \<Rightarrow> (Inr False, db)
      | Some l \<Rightarrow>
          (case find (\<lambda>t. t_id t = dl_trip l) (db_trips db) of
             None \<Rightarrow> (Inr False, db)
           | Some trip \<Rightarrow>
               if t_user trip \<noteq> user then
                 (Inl (PermissionDenied ''Not allowed to modify this log''), db)
               else
                 (Inr True,
                  db\<lparr> db_logs := filter (\<lambda>row. dl_id row \<noteq> dl_id l) (db_logs db),
                      db_segments := filter (\<lambda>s. ds_log s \<noteq> dl_id l) (db_segments db) \<rparr>)))"

definition delete_driver_log :: "user_id \<Rightarrow> nat \<Rightarrow> database \<Rightarrow> (exn + bool) \<times> database" where
  "delete_driver_log user log_id = atomic (delete_driver_log_body user log_id)"

text \<open>
  A reading of \<^verbatim>\<open>strptime(value, "%H:%M")\<close> on the five-character form \<^verbatim>\<open>HH:MM\<close>,
  for running examples; the properties below hold for every parser.
\<close>

definition digit_value :: "char \<Rightarrow> nat option" where
  "digit_value c =
     (let n = (of_char c :: nat) in if 48 \<le> n \<and> n \<le> 57 then Some (n - 48) else None)"

fun strptime_hhmm :: "string \<Rightarrow> time option" where
  "strptime_hhmm [h1, h2, sep, m1, m2] =
     (case (digit_value h1, digit_value h2, digit_value m1, digit_value m2) of
        (Some a, Some b, Some c, Some d) \<Rightarrow>
          if sep = CHR '':'' \<and> 10 * a + b < 24 \<and> 10 * c + d < 60
          then Some (60 * (10 * a + b) + (10 * c + d)) else None
      | _ \<Rightarrow> None)"
| "strptime_hhmm _ = None"

section \<open>The trip pipeline (services/trip_planner.py)\<close>

text \<open>
  The dictionary that the routing collaborator \<^verbatim>\<open>plan_route\<close> returns, read with
  \<^verbatim>\<open>.get(key, default)\<close>: \<open>None\<close> is an absent key.
\<close>

record route_segment =
  rs_distance_miles :: "real option"
  rs_duration_minutes :: "real option"
  rs_duration_hours :: "real option"

record route_data =
  rd_polyline :: "string option"
  rd_total_distance_miles :: "real option"
  rd_total_duration_hours :: "real option"
  rd_segments :: "route_segment list option"

record stop_definition =
  sd_type :: string
  sd_location :: location
  sd_distance_from_previous :: real
  sd_duration_from_previous :: real

definition build_stop_definitions :: "location list \<Rightarrow> stop_definition list" where
  "build_stop_definitions locations =
     map (\<lambda>(label, loc).
            \<lparr> sd_type = label, sd_location = loc,
              sd_distance_from_previous = 0, sd_duration_from_previous = 0 \<rparr>)
       (zip [''START'', ''PICKUP'', ''DROPOFF''] locations)"

text \<open>The keyword arguments of \<^verbatim>\<open>plan_trip_for_user\<close> other than the user.\<close>

record trip_request =
  rq_start_location :: "location option"
  rq_pickup_location :: "location option"
  rq_dropoff_location :: "location option"
  rq_cycle_hours_used :: real
  rq_tractor_number :: "string option"
  rq_trailer_numbers :: "string list option"
  rq_carrier_names :: "string list option"
  rq_main_office_address :: "string option"
  rq_home_terminal_address :: "string option"
  rq_co_driver_name :: "string option"
  rq_shipper_name :: "string option"
  rq_commodity :: "string option"

text \<open>\<^verbatim>\<open>value or ''\<close> and \<^verbatim>\<open>value or []\<close>.\<close>

definition or_nil :: "'a list option \<Rightarrow> 'a list" where
  "or_nil v = (case v of None \<Rightarrow> [] | Some xs \<Rightarrow> xs)"

text \<open>
  The loop \<^verbatim>\<open>for idx in range(1, len(stop_definitions))\<close>: it writes the leg's
  distance and duration into the stop definition at \<open>idx\<close> and appends the leg.
\<close>

fun fill_legs :: "nat list \<Rightarrow> route_segment list \<Rightarrow> stop_definition list \<Rightarrow> leg list \<Rightarrow>
    stop_definition list \<times> leg list" where
  "fill_legs [] route_segments stop_definitions legs_payload = (stop_definitions, legs_payload)"
| "fill_legs (idx # rest) route_segments stop_definitions legs_payload =
     (let segment =
            (if idx - 1 < length route_segments then route_segments ! (idx - 1)
             else \<lparr> rs_distance_miles = None, rs_duration_minutes = None,
                    rs_duration_hours = None \<rparr>);
          distance = (case rs_distance_miles segment of None \<Rightarrow> 0 | Some d \<Rightarrow> d);
          duration_hours =
            (case rs_duration_hours segment of
               Some h \<Rightarrow> h
             | None \<Rightarrow> (case rs_duration_minutes segment of None \<Rightarrow> 0 | Some m \<Rightarrow> m) / 60);
          stop_definitions' =
            stop_definitions
              [idx := (stop_definitions ! idx)
                 \<lparr> sd_distance_from_previous := distance,
                   sd_duration_from_previous := duration_hours \<rparr>];
          new_leg =
            \<lparr> leg_sequence = idx,
              from_stop_type = sd_type (stop_definitions' ! (idx - 1)),
              to_stop_type = sd_type (stop_definitions' ! idx),
              from_location = sd_location (stop_definitions' ! (idx - 1)),
              to_location = sd_location (stop_definitions' ! idx),
              leg_distance_miles = distance,
              leg_duration_hours = duration_hours \<rparr>
      in fill_legs rest route_segments stop_definitions' (legs_payload @ [new_leg]))"

text \<open>
  The rows of \<^verbatim>\<open>Stop.objects.bulk_create\<close>: sequence numbers from
  \<^verbatim>\<open>enumerate(stop_definitions, start=1)\<close>, consecutive fresh keys.
\<close>

fun make_stops :: "nat \<Rightarrow> nat \<Rightarrow> nat \<Rightarrow> stop_definition list \<Rightarrow> Stop list" where
  "make_stops route next_id index [] = []"
| "make_stops route next_id index (definition # rest) =
     \<lparr> s_id = next_id, s_route = route, s_stop_type = sd_type definition,
       s_location = sd_location definition, s_duration_minutes = 0, s_sequence = index,
       s_distance_from_previous = sd_distance_from_previous definition,
       s_duration_from_previous = sd_duration_from_previous definition \<rparr>
     # make_stops route (Suc next_id) (Suc index) rest"

definition save_trip :: "Trip \<Rightarrow> database \<Rightarrow> database" where
  "save_trip trip db =
     db\<lparr> db_trips :=
           map (\<lambda>row. if t_id row = t_id trip
                       then row\<lparr> t_total_miles := t_total_miles trip,
                               t_total_hours := t_total_hours trip,
                               t_itinerary_summary := t_itinerary_summary trip \<rparr>
                       else row) (db_trips db) \<rparr>"

text \<open>
  The block under \<^verbatim>\<open>with transaction.atomic()\<close>. The three location columns of
  \<open>Trip\<close> are declared without \<^verbatim>\<open>null=True\<close>, so \<^verbatim>\<open>Trip.objects.create\<close> with a
  location of \<^verbatim>\<open>None\<close> raises \<open>IntegrityError\<close>. The routing collaborator is the
  parameter \<open>plan_route\<close>; only its \<open>RoutePlannerError\<close> is caught and raised again as
  \<open>TripPlanningError\<close> with the same message.
\<close>

definition plan_trip_body ::
  "(location list \<Rightarrow> exn + route_data) \<Rightarrow> user_id \<Rightarrow> trip_request \<Rightarrow> database \<Rightarrow>
   (exn + Trip) \<times> database" where
  "plan_trip_body plan_route user request db =
     (case (rq_start_location request, rq_pickup_location request,
            rq_dropoff_location request) of
        (Some start_loc, Some pickup_loc, Some dropoff_loc) \<Rightarrow>
          (let trip =
                 \<lparr> t_id = fresh_id (map t_id (db_trips db)), t_user = user,
                   t_start_location = start_loc,
                   t_pickup_location = pickup_loc,
                   t_dropoff_location = dropoff_loc,
                   t_tractor_number = or_nil (rq_tractor_number request),
                   t_trailer_numbers = or_nil (rq_trailer_numbers request),
                   t_carrier_names = or_nil (rq_carrier_names request),
                   t_main_office_address = or_nil (rq_main_office_address request),
                   t_home_terminal_address = or_nil (rq_home_terminal_address request),
                   t_co_driver_name = or_nil (rq_co_driver_name request),
                   t_shipper_name = or_nil (rq_shipper_name request),
                   t_commodity = or_nil (rq_commodity request),
                   t_status = ''PLANNED'',
                   t_cycle_hours_used = rq_cycle_hours_used request,
                   t_total_miles = 0, t_total_hours = 0,
                   t_itinerary_summary = None \<rparr>;
               db1 = db\<lparr> db_trips := db_trips db @ [trip] \<rparr>
           in case plan_route [start_loc, pickup_loc, dropoff_loc] of
                Inl (RoutePlannerError msg) \<Rightarrow> (Inl (TripPlanningError msg), db1)
              | Inl e \<Rightarrow> (Inl e, db1)
              | Inr rd \<Rightarrow>
                  (let route =
                         \<lparr> r_id = fresh_id (map r_id (db_routes db1)), r_trip = t_id trip,
                           r_polyline = or_nil (rd_polyline rd),
                           r_total_distance =
                             (case rd_total_distance_miles rd of None \<Rightarrow> 0 | Some d \<Rightarrow> d),
                           r_estimated_duration =
                             (case rd_total_duration_hours rd of None \<Rightarrow> 0 | Some h \<Rightarrow> h) \<rparr>;
                       db2 = db1\<lparr> db_routes := db_routes db1 @ [route] \<rparr>;
                       trip1 = trip\<lparr> t_total_miles := r_total_distance route,
                                     t_total_hours := r_estimated_duration route \<rparr>;
                       stop_definitions =
                         build_stop_definitions [start_loc, pickup_loc, dropoff_loc];
                       (stop_definitions', legs_payload) =
                         fill_legs [1 ..< length stop_definitions] (or_nil (rd_segments rd))
                           stop_definitions [];
                       stop_records =
                         make_stops (r_id route) (fresh_id (map s_id (db_stops db2))) 1
                           stop_definitions';
                       db3 = db2\<lparr> db_stops := db_stops db2 @ stop_records \<rparr>;
                       trip2 = trip1\<lparr> t_itinerary_summary :=
                                 Some \<lparr> it_legs = legs_payload,
                                        it_total_distance_miles = r_total_distance route,
                                        it_total_duration_hours = r_estimated_duration route,
                                        it_hos_alerts = [] \<rparr> \<rparr>
                   in (Inr trip2, save_trip trip2 db3)))
      | _ \<Rightarrow> (Inl (IntegrityError ''NOT NULL constraint failed''), db))"

definition plan_trip_for_user ::
  "(location list \<Rightarrow> exn + route_data) \<Rightarrow> user_id option \<Rightarrow> trip_request \<Rightarrow> database \<Rightarrow>
   (exn + Trip) \<times> database" where
  "plan_trip_for_user plan_route user request db =
     (case user of
        None \<Rightarrow> (Inl (TripPlanningError ''A valid user is required to plan a trip.''), db)
      | Some u \<Rightarrow> atomic (plan_trip_body plan_route u request) db)"

subsection \<open>Background jobs\<close>

text \<open>
  \<^verbatim>\<open>mark_running\<close>, \<^verbatim>\<open>mark_success\<close> and \<^verbatim>\<open>mark_failed\<close> set fields of the job
  object and save them with \<^verbatim>\<open>update_fields\<close>, which writes those columns of the row
  with the job's key. Time stamps are not modelled.
\<close>

definition mark_running :: "BackgroundJob \<Rightarrow> database \<Rightarrow> BackgroundJob \<times> database" where
  "mark_running job db =
     (job\<lparr> j_status := STATUS_RUNNING \<rparr>,
      db\<lparr> db_jobs :=
            map (\<lambda>row. if j_id row = j_id job then row\<lparr> j_status := STATUS_RUNNING \<rparr> else row)
              (db_jobs db) \<rparr>)"

definition mark_success ::
  "BackgroundJob \<Rightarrow> (string \<times> nat) list \<Rightarrow> database \<Rightarrow> BackgroundJob \<times> database" where
  "mark_success job result db =
     (job\<lparr> j_status := STATUS_SUCCESS, j_result := result \<rparr>,
      db\<lparr> db_jobs :=
            map (\<lambda>row. if j_id row = j_id job
                        then row\<lparr> j_status := STATUS_SUCCESS, j_result := result \<rparr> else row)
              (db_jobs db) \<rparr>)"

definition mark_failed :: "BackgroundJob \<Rightarrow> string \<Rightarrow> database \<Rightarrow> BackgroundJob \<times> database" where
  "mark_failed job error_message db =
     (job\<lparr> j_status := STATUS_FAILED, j_error_message := take 2048 error_message \<rparr>,
      db\<lparr> db_jobs :=
            map (\<lambda>row. if j_id row = j_id job
                        then row\<lparr> j_status := STATUS_FAILED,
                                j_error_message := take 2048 error_message \<rparr>
                        else row)
              (db_jobs db) \<rparr>)"

text \<open>\<^verbatim>\<open>str(exc)\<close>: the message of the exception (a \<^verbatim>\<open>KeyError\<close> prints its key quoted).\<close>

fun str_exn :: "exn \<Rightarrow> string" where
  "str_exn (HOSComputationError m) = m"
| "str_exn (TripPlanningError m) = m"
| "str_exn (RoutePlannerError m) = m"
| "str_exn (ValidationError m) = m"
| "str_exn (PermissionDenied m) = m"
| "str_exn (IntegrityError m) = m"
| "str_exn (KeyError m) = [CHR 0x27] @ m @ [CHR 0x27]"
| "str_exn (ValueError m) = m"

definition run_trip_job ::
  "(location list \<Rightarrow> exn + route_data) \<Rightarrow> BackgroundJob \<Rightarrow> database \<Rightarrow> (exn + Trip) \<times> database" where
  "run_trip_job plan_route job db =
     (let payload = j_payload job;
          user = j_user job;
          request =
            \<lparr> rq_start_location = jp_start_location payload,
              rq_pickup_location = jp_pickup_location payload,
              rq_dropoff_location = jp_dropoff_location payload,
              rq_cycle_hours_used =
                (case jp_cycle_hours_used payload of None \<Rightarrow> 0 | Some c \<Rightarrow> c),
              rq_tractor_number = jp_tractor_number payload,
              rq_trailer_numbers = jp_trailer_numbers payload,
              rq_carrier_names = jp_carrier_names payload,
              rq_main_office_address = jp_main_office_address payload,
              rq_home_terminal_address = jp_home_terminal_address payload,
              rq_co_driver_name = jp_co_driver_name payload,
              rq_shipper_name = jp_shipper_name payload,
              rq_commodity = jp_commodity payload \<rparr>
      in case user of
           None \<Rightarrow> (Inl (TripPlanningError ''Associated user no longer exists for this job.''), db)
         | Some u \<Rightarrow> plan_trip_for_user plan_route (Some u) request db)"

text \<open>
  The loop of \<^verbatim>\<open>process_pending_trip_jobs\<close> over the selected jobs. Both handlers
  (\<^verbatim>\<open>except TripPlanningError\<close> and \<^verbatim>\<open>except Exception\<close>) mark the job failed, the
  first with \<^verbatim>\<open>exc.message\<close> and the second with \<^verbatim>\<open>str(exc)\<close>.
\<close>

fun process_jobs ::
  "(location list \<Rightarrow> exn + route_data) \<Rightarrow> BackgroundJob list \<Rightarrow> BackgroundJob list \<Rightarrow>
   database \<Rightarrow> BackgroundJob list \<times> database" where
  "process_jobs plan_route [] processed db = (processed, db)"
| "process_jobs plan_route (job # rest) processed db =
     (let (job1, db1) = mark_running job db
      in case run_trip_job plan_route job1 db1 of
           (Inr trip, db2) \<Rightarrow>
             (let (job2, db3) = mark_success job1 [(''trip_id'', t_id trip)] db2
              in process_jobs plan_route rest (processed @ [job2]) db3)
         | (Inl (TripPlanningError message), db2) \<Rightarrow>
             (let (job2, db3) = mark_failed job1 message db2
              in process_jobs plan_route rest (processed @ [job2]) db3)
         | (Inl e, db2) \<Rightarrow>
             (let (job2, db3) = mark_failed job1 (str_exn e) db2
              in process_jobs plan_route rest (processed @ [job2]) db3))"

text \<open>
  The query: pending jobs of the type \<^verbatim>\<open>PLAN_TRIP\<close>, ordered by \<^verbatim>\<open>created_at\<close>
  (jobs created at the same time keep their table order), sliced with \<^verbatim>\<open>[:limit]\<close>.
  Slicing a query set with a negative bound raises before any job is read.
\<close>

definition select_pending_jobs :: "int \<Rightarrow> database \<Rightarrow> BackgroundJob list" where
  "select_pending_jobs limit db =
     take (nat limit)
       (sort_key j_created_at
          (filter (\<lambda>j. j_job_type j = JOB_TYPE_PLAN_TRIP \<and> j_status j = STATUS_PENDING)
             (db_jobs db)))"

definition process_pending_trip_jobs ::
  "(location list \<Rightarrow> exn + route_data) \<Rightarrow> int \<Rightarrow> database \<Rightarrow>
   (exn + BackgroundJob list) \<times> database" where
  "process_pending_trip_jobs plan_route limit db =
     (if limit < 0 then (Inl (ValueError ''Negative indexing is not supported.''), db)
      else
        (let pending_jobs = select_pending_jobs limit db;
             (processed, db') = process_jobs plan_route pending_jobs [] db
         in (Inr processed, db')))"

section \<open>The status mutation (schema/mutations.py)\<close>

text \<open>
  \<^verbatim>\<open>str.strip()\<close> and \<^verbatim>\<open>str.upper()\<close> on ASCII text: the white space characters are
  tab, line feed, vertical tab, form feed, carriage return, the four separators
  28 to 31, and the space; a lower-case letter \<open>a\<close> to \<open>z\<close> becomes the character 32
  below it, which is the same character with bit 5 cleared.
\<close>

definition is_space :: "char \<Rightarrow> bool" where
  "is_space c = ((of_char c :: nat) \<in> {9, 10, 11, 12, 13, 28, 29, 30, 31, 32})"

definition py_strip :: "string \<Rightarrow> string" where
  "py_strip s = rev (dropWhile is_space (rev (dropWhile is_space s)))"

definition upper_char :: "char \<Rightarrow> char" where
  "upper_char c =
     (let n = (of_char c :: nat)
      in if 97 \<le> n \<and> n \<le> 122 then
           (case c of Char b0 b1 b2 b3 b4 b5 b6 b7 \<Rightarrow> Char b0 b1 b2 b3 b4 False b6 b7)
         else c)"

definition py_upper :: "string \<Rightarrow> string" where
  "py_upper s = map upper_char s"

record update_trip_status_payload =
  uts_success :: bool
  uts_trip :: "Trip option"
  uts_errors :: "string list"

text \<open>\<^verbatim>\<open>trip.save(update_fields=["status", "updated_at"])\<close>.\<close>

definition save_trip_status :: "Trip \<Rightarrow> database \<Rightarrow> database" where
  "save_trip_status trip db =
     db\<lparr> db_trips :=
           map (\<lambda>row. if t_id row = t_id trip then row\<lparr> t_status := t_status trip \<rparr> else row)
             (db_trips db) \<rparr>"

text \<open>
  \<^verbatim>\<open>UpdateTripStatus.mutate\<close> for the authenticated user. The rows are written as
  the code asks; the storage constraint \<^verbatim>\<open>unique_active_trip_per_user\<close> of
  \<^verbatim>\<open>Trip.Meta\<close> is stated as the predicate below and is not enforced by \<open>save_trip_status\<close>.
\<close>

definition update_trip_status ::
  "user_id \<Rightarrow> nat \<Rightarrow> string option \<Rightarrow> database \<Rightarrow> update_trip_status_payload \<times> database" where
  "update_trip_status user trip_id status db =
     (case find (\<lambda>t. t_id t = trip_id \<and> t_user t = user) (db_trips db) of
        None \<Rightarrow>
          (\<lparr> uts_success = False, uts_trip = None, uts_errors = [''Trip not found''] \<rparr>, db)
      | Some trip \<Rightarrow>
          (let normalised_status = py_upper (py_strip (or_nil status));
               valid_statuses = {TRIP_STATUS_PLANNED, TRIP_STATUS_IN_PROGRESS,
                                 TRIP_STATUS_COMPLETED, TRIP_STATUS_CANCELLED};
               existing_active =
                 filter (\<lambda>t. t_user t = user \<and> t_status t = TRIP_STATUS_IN_PROGRESS
                              \<and> t_id t \<noteq> t_id trip) (db_trips db)
           in if normalised_status \<notin> valid_statuses then
                (\<lparr> uts_success = False, uts_trip = None,
                   uts_errors = [''Invalid status value''] \<rparr>, db)
              else if normalised_status = TRIP_STATUS_IN_PROGRESS \<and> existing_active \<noteq> [] then
                (\<lparr> uts_success = False, uts_trip = None,
                   uts_errors = [''Another trip is already in progress''] \<rparr>, db)
              else if t_status trip = TRIP_STATUS_IN_PROGRESS
                      \<and> normalised_status \<notin> {TRIP_STATUS_IN_PROGRESS, TRIP_STATUS_COMPLETED} then
                (\<lparr> uts_success = False, uts_trip = None,
                   uts_errors =
                     [''Routes already in progress can only be marked as completed.''] \<rparr>, db)
              else if t_status trip \<noteq> TRIP_STATUS_PLANNED
                      \<and> normalised_status = TRIP_STATUS_PLANNED then
                (\<lparr> uts_success = False, uts_trip = None,
                   uts_errors =
                     [''Only routes still in planning can be marked as planned.''] \<rparr>, db)
              else
                (let trip' = trip\<lparr> t_status := normalised_status \<rparr>
                 in (\<lparr> uts_success = True, uts_trip = Some trip', uts_errors = [] \<rparr>,
                     save_trip_status trip' db))))"

text \<open>
  The constraint of \<^verbatim>\<open>Trip.Meta\<close>: \<^verbatim>\<open>UniqueConstraint(fields=['user'],
  condition=Q(status=IN_PROGRESS))\<close>, no two rows in progress for one user; and the
  primary key of the table.
\<close>

definition unique_active_trip_per_user :: "database \<Rightarrow> bool" where
  "unique_active_trip_per_user db =
     (distinct (map t_id (db_trips db)) \<and>
      (\<forall>a \<in> set (db_trips db). \<forall>b \<in> set (db_trips db).
         t_status a = TRIP_STATUS_IN_PROGRESS \<and> t_status b = TRIP_STATUS_IN_PROGRESS
         \<and> t_user a = t_user b \<longrightarrow> t_id a = t_id b))"

section \<open>Example data\<close>

text \<open>Rows, tables and request dictionaries on which the operations are run below.\<close>

definition example_location :: location where
  "example_location = \<lparr> lat = 34, lng = -118, address = ''Los Angeles'' \<rparr>"

definition example_trip :: "nat \<Rightarrow> user_id \<Rightarrow> string \<Rightarrow> Trip" where
  "example_trip i u st =
     \<lparr> t_id = i, t_user = u,
       t_start_location = example_location,
       t_pickup_location = example_location,
       t_dropoff_location = example_location,
       t_tractor_number = [], t_trailer_numbers = [], t_carrier_names = [],
       t_main_office_address = [], t_home_terminal_address = [], t_co_driver_name = [],
       t_shipper_name = [], t_commodity = [],
       t_status = st, t_cycle_hours_used = 0, t_total_miles = 0, t_total_hours = 0,
       t_itinerary_summary = None \<rparr>"

definition example_log :: "nat \<Rightarrow> nat \<Rightarrow> DriverLog" where
  "example_log i trip =
     \<lparr> dl_id = i, dl_trip = trip, dl_day_number = 1, dl_log_date = 0,
       dl_total_off_duty_minutes = 0, dl_total_sleeper_minutes = 0,
       dl_total_driving_minutes = 0, dl_total_on_duty_minutes = 0,
       dl_total_distance_miles = 0, dl_notes = [] \<rparr>"

definition example_db :: "Trip list \<Rightarrow> DriverLog list \<Rightarrow> database" where
  "example_db ts ls =
     \<lparr> db_trips = ts, db_routes = [], db_stops = [], db_logs = ls, db_segments = [],
       db_jobs = [] \<rparr>"

definition example_segment :: "string \<Rightarrow> string \<Rightarrow> string \<Rightarrow> raw_segment" where
  "example_segment st start_time end_time =
     [''status'' \<mapsto> PyStr st, ''startTime'' \<mapsto> PyStr start_time, ''endTime'' \<mapsto> PyStr end_time]"

definition example_request :: trip_request where
  "example_request =
     \<lparr> rq_start_location = Some example_location,
       rq_pickup_location = Some example_location,
       rq_dropoff_location = Some example_location,
       rq_cycle_hours_used = 0,
       rq_tractor_number = None, rq_trailer_numbers = None, rq_carrier_names = None,
       rq_main_office_address = None, rq_home_terminal_address = None,
       rq_co_driver_name = None, rq_shipper_name = None, rq_commodity = None \<rparr>"

definition example_payload :: job_payload where
  "example_payload =
     \<lparr> jp_start_location = Some example_location,
       jp_pickup_location = Some example_location,
       jp_dropoff_location = Some example_location,
       jp_cycle_hours_used = Some 0,
       jp_tractor_number = None, jp_trailer_numbers = None, jp_carrier_names = None,
       jp_main_office_address = None, jp_home_terminal_address = None,
       jp_co_driver_name = None, jp_shipper_name = None, jp_commodity = None \<rparr>"

definition example_job :: "nat \<Rightarrow> user_id option \<Rightarrow> string \<Rightarrow> nat \<Rightarrow> BackgroundJob" where
  "example_job i u st created =
     \<lparr> j_id = i, j_user = u, j_job_type = JOB_TYPE_PLAN_TRIP, j_status = st,
       j_payload = example_payload, j_result = [], j_error_message = [],
       j_created_at = created \<rparr>"

text \<open>Two routing collaborators: one that always fails and one that always answers.\<close>

definition failing_route :: "location list \<Rightarrow> exn + route_data" where
  "failing_route locations =
     Inl (RoutePlannerError ''OpenRouteService returned no routes for the given coordinates.'')"

definition working_route :: "location list \<Rightarrow> exn + route_data" where
  "working_route locations =
     Inr \<lparr> rd_polyline = Some ''encoded'', rd_total_distance_miles = Some 100,
           rd_total_duration_hours = Some 20,
           rd_segments =
             Some [\<lparr> rs_distance_miles = Some 50, rs_duration_minutes = None,
                      rs_duration_hours = Some 10 \<rparr>,
                   \<lparr> rs_distance_miles = Some 50, rs_duration_minutes = None,
                      rs_duration_hours = Some 10 \<rparr>] \<rparr>"

chapter \<open>Properties\<close>

section \<open>The day scheduler\<close>

text \<open>Rounding to minutes never passes an integer bound that the hours respect.\<close>

lemma py_round_le: "x \<le> of_int n \<Longrightarrow> py_round x \<le> n"
proof -
  assume a: "x \<le> of_int n"
  then have f: "\<lfloor>x\<rfloor> \<le> n" by (simp add: floor_le_iff)
  show ?thesis
  proof (cases "\<lfloor>x\<rfloor> = n")
    case True
    then have "x - of_int \<lfloor>x\<rfloor> \<le> 0" using a by simp
    then show ?thesis using f by (simp add: py_round_def Let_def)
  next
    case False
    then have "\<lfloor>x\<rfloor> + 1 \<le> n" using f by simp
    then show ?thesis using f by (simp add: py_round_def Let_def)
  qed
qed

lemma py_round_upper: "real_of_int (py_round x) \<le> x + 1 / 2"
proof (cases "x - of_int \<lfloor>x\<rfloor> < 1 / 2")
  case True
  have "real_of_int \<lfloor>x\<rfloor> \<le> x" by simp
  moreover have "py_round x = \<lfloor>x\<rfloor>"
    using True by (simp add: py_round_def Let_def)
  ultimately show ?thesis by linarith
next
  case False
  then have "py_round x \<le> \<lfloor>x\<rfloor> + 1"
    by (simp add: py_round_def Let_def)
  then have "real_of_int (py_round x) \<le> real_of_int \<lfloor>x\<rfloor> + 1"
    by linarith
  then show ?thesis using False by linarith
qed

lemma py_round_int: "py_round (of_int n) = n"
  by (simp add: py_round_def)

text \<open>The loop equation, for a pass that ends the loop and for one that plans a day.\<close>

lemma schedule_loop_stop:
  "\<not> (0 < rh \<and> 0 < rc) \<Longrightarrow> schedule_loop day rh rc acc = acc"
  by (subst schedule_loop.simps) auto

lemma schedule_loop_step:
  "0 < rh \<Longrightarrow> 0 < rc \<Longrightarrow>
   pd = min DRIVING_LIMIT_PER_DAY (min rh rc) \<Longrightarrow>
   pod = min (pd + ON_DUTY_BUFFER_HOURS) (min ON_DUTY_LIMIT_PER_DAY rc) \<Longrightarrow>
   schedule_loop day rh rc acc =
     schedule_loop (day + 1) (rh - pd) (rc - pod)
       (acc @ [\<lparr> planned_driving = pd, planned_on_duty = pod,
                    summary = make_summary day pd pod (rc - pod) \<rparr>])"
  by (subst schedule_loop.simps) (simp add: Let_def)

text \<open>
  Every planned day respects the two daily limits, and its summary holds the planned
  hours rounded to minutes.
\<close>

lemma schedule_loop_bounds:
  "\<forall>d \<in> set acc. planned_driving d \<le> 11 \<and> planned_on_duty d \<le> 14
       \<and> total_driving_minutes (summary d) = py_round (planned_driving d * 60)
       \<and> total_on_duty_minutes (summary d) = py_round (planned_on_duty d * 60)
   \<Longrightarrow> \<forall>d \<in> set (schedule_loop day rh rc acc). planned_driving d \<le> 11 \<and> planned_on_duty d \<le> 14
       \<and> total_driving_minutes (summary d) = py_round (planned_driving d * 60)
       \<and> total_on_duty_minutes (summary d) = py_round (planned_on_duty d * 60)"
proof (induction day rh rc acc rule: schedule_loop.induct)
  case (1 day rh rc acc)
  show ?case
  proof (cases "rh > 0 \<and> rc > 0")
    case False
    then have "schedule_loop day rh rc acc = acc"
      by (rule schedule_loop_stop)
    then show ?thesis using "1.prems" by (simp only:)
  next
    case True
    define pd where "pd = min DRIVING_LIMIT_PER_DAY (min rh rc)"
    define pod where "pod = min (pd + ON_DUTY_BUFFER_HOURS) (min ON_DUTY_LIMIT_PER_DAY rc)"
    have pd: "pd \<le> 11" by (simp add: pd_def DRIVING_LIMIT_PER_DAY_def)
    have pod: "pod \<le> 14" by (simp add: pod_def ON_DUTY_LIMIT_PER_DAY_def)
    let ?new = "\<lparr> planned_driving = pd, planned_on_duty = pod,
                    summary = make_summary day pd pod (rc - pod) \<rparr>"
    have new: "planned_driving ?new \<le> 11 \<and> planned_on_duty ?new \<le> 14
       \<and> total_driving_minutes (summary ?new) = py_round (planned_driving ?new * 60)
       \<and> total_on_duty_minutes (summary ?new) = py_round (planned_on_duty ?new * 60)"
      using pd pod by (simp add: make_summary_def Let_def)
    have "\<forall>d \<in> set (acc @ [?new]). planned_driving d \<le> 11 \<and> planned_on_duty d \<le> 14
       \<and> total_driving_minutes (summary d) = py_round (planned_driving d * 60)
       \<and> total_on_duty_minutes (summary d) = py_round (planned_on_duty d * 60)"
      using "1.prems" new by auto
    from "1.IH"[OF True pd_def pod_def this]
    show ?thesis
      using True by (simp only: schedule_loop_step [OF _ _ pd_def pod_def])
  qed
qed

text \<open>The planned driving hours of the days add up to at most the hours to schedule.\<close>

lemma schedule_loop_sum:
  "0 \<le> rh \<Longrightarrow> sum_list (map planned_driving (schedule_loop day rh rc acc))
      \<le> sum_list (map planned_driving acc) + rh"
proof (induction day rh rc acc rule: schedule_loop.induct)
  case (1 day rh rc acc)
  show ?case
  proof (cases "rh > 0 \<and> rc > 0")
    case False
    then show ?thesis using "1.prems" by (simp add: schedule_loop_stop)
  next
    case True
    define pd where "pd = min DRIVING_LIMIT_PER_DAY (min rh rc)"
    define pod where "pod = min (pd + ON_DUTY_BUFFER_HOURS) (min ON_DUTY_LIMIT_PER_DAY rc)"
    have "0 \<le> rh - pd" by (simp add: pd_def)
    from "1.IH"[OF True pd_def pod_def this]
    show ?thesis using True
      by (simp add: schedule_loop_step [OF _ _ pd_def pod_def])
  qed
qed

text \<open>
  Only the last day can plan a number of driving hours other than 11, so rounding
  to minutes adds at most half a minute to the total of the emitted driving minutes.
\<close>

lemma schedule_loop_minutes:
  "0 \<le> rh \<Longrightarrow>
   real_of_int (sum_list (map (\<lambda>d. total_driving_minutes (summary d))
                  (schedule_loop day rh rc acc)))
     \<le> real_of_int (sum_list (map (\<lambda>d. total_driving_minutes (summary d)) acc))
        + 60 * rh + 1 / 2"
proof (induction day rh rc acc rule: schedule_loop.induct)
  case (1 day rh rc acc)
  show ?case
  proof (cases "rh > 0 \<and> rc > 0")
    case False
    then show ?thesis using "1.prems" by (simp add: schedule_loop_stop)
  next
    case True
    define pd where "pd = min DRIVING_LIMIT_PER_DAY (min rh rc)"
    define pod where "pod = min (pd + ON_DUTY_BUFFER_HOURS) (min ON_DUTY_LIMIT_PER_DAY rc)"
    let ?new = "\<lparr> planned_driving = pd, planned_on_duty = pod,
                    summary = make_summary day pd pod (rc - pod) \<rparr>"
    have unfold: "schedule_loop day rh rc acc =
                    schedule_loop (day + 1) (rh - pd) (rc - pod) (acc @ [?new])"
      using True by (simp add: schedule_loop_step [OF _ _ pd_def pod_def])
    have minutes: "total_driving_minutes (summary ?new) = py_round (pd * 60)"
      by (simp add: make_summary_def Let_def)
    have le: "pd \<le> rh" by (simp add: pd_def)
    show ?thesis
    proof (cases "pd = 11")
      case True
      then have "py_round (pd * 60) = 660"
        using py_round_int [of 660] by simp
      moreover have "0 \<le> rh - pd" using le by simp
      note "1.IH" [OF \<open>0 < rh \<and> 0 < rc\<close> pd_def pod_def this]
      ultimately show ?thesis
        unfolding unfold using minutes True by simp
    next
      case False
      then have "rh - pd = 0 \<or> rc - pod = 0"
        unfolding pd_def pod_def DRIVING_LIMIT_PER_DAY_def ON_DUTY_BUFFER_HOURS_def
          ON_DUTY_LIMIT_PER_DAY_def
        by (auto simp: min_def split: if_splits)
      then have "\<not> (0 < rh - pd \<and> 0 < rc - pod)" by auto
      then have last: "schedule_loop day rh rc acc = acc @ [?new]"
        unfolding unfold by (rule schedule_loop_stop)
      have "real_of_int (py_round (pd * 60)) \<le> 60 * rh + 1 / 2"
        using py_round_upper [of "pd * 60"] le by simp
      then show ?thesis
        unfolding last using minutes by simp
    qed
  qed
qed

text \<open>
  Claim C5. For every \<open>cycle_hours_used \<ge> 70\<close> and every \<open>total_trip_hours \<ge> 0\<close> the
  scheduler raises the cycle-exhausted \<open>HOSComputationError\<close>; since the result is the
  exception, no daily plan is produced.
\<close>

theorem cycle_exhausted_fails:
  assumes "70 \<le> cycle_hours_used" and "0 \<le> total_trip_hours"
  shows "generate_driver_logs total_trip_hours cycle_hours_used =
           Inl (HOSComputationError
                  ''Driver has exhausted the 70-hour cycle. Trip cannot be scheduled.'')"
  using assms by (simp add: generate_driver_logs_def plan_days_def CYCLE_LIMIT_HOURS_def)

theorem cycle_exhausted_fails_witness:
  "(70::real) \<le> 82 \<and> (0::real) \<le> 5 \<and>
   generate_driver_logs 5 82 =
     Inl (HOSComputationError
            ''Driver has exhausted the 70-hour cycle. Trip cannot be scheduled.'')"
  using cycle_exhausted_fails [of 82 5] by simp


text \<open>A 20-hour trip on a fresh cycle: an 11-hour day and a 9-hour day.\<close>

lemma plan_days_20_0:
  "plan_days 20 0 = Inr
     [\<lparr> planned_driving = 11, planned_on_duty = 13, summary = make_summary 1 11 13 57 \<rparr>,
      \<lparr> planned_driving = 9, planned_on_duty = 11, summary = make_summary 2 9 11 46 \<rparr>]"
  by (simp add: plan_days_def schedule_loop.simps Let_def CYCLE_LIMIT_HOURS_def
        DRIVING_LIMIT_PER_DAY_def ON_DUTY_BUFFER_HOURS_def ON_DUTY_LIMIT_PER_DAY_def)

text \<open>
  Claim C1. For \<open>total_trip_hours \<ge> 0\<close> and \<open>0 \<le> cycle_hours_used < 70\<close>, whenever the
  scheduler returns its days: the payloads are those of the planned days; every day
  has planned driving of at most 11 hours and planned on-duty time of at most 14
  hours, emitted as these hours rounded to minutes (at most 660 and 840); the planned
  driving hours of all days add up to at most
  \<open>min(total_trip_hours, 70 - cycle_hours_used) + eps\<close> for every \<open>eps \<ge> 0\<close>; and the emitted
  driving minutes of all days, in hours, add up to at most that minimum plus half a
  minute.
\<close>

theorem scheduled_days_within_limits:
  assumes "0 \<le> total_trip_hours" and "0 \<le> cycle_hours_used" and "cycle_hours_used < 70"
    and "0 \<le> eps"
    and "plan_days total_trip_hours cycle_hours_used = Inr days"
  shows "generate_driver_logs total_trip_hours cycle_hours_used =
           Inr (map (\<lambda>d. as_payload (summary d)) days)
       \<and> (\<forall>d \<in> set days.
             planned_driving d \<le> 11 \<and> planned_on_duty d \<le> 14
           \<and> total_driving_minutes (summary d) = py_round (planned_driving d * 60)
           \<and> total_on_duty_minutes (summary d) = py_round (planned_on_duty d * 60)
           \<and> total_driving_minutes (summary d) \<le> 11 * 60
           \<and> total_on_duty_minutes (summary d) \<le> 14 * 60)
       \<and> sum_list (map planned_driving days) \<le> min total_trip_hours (70 - cycle_hours_used) + eps
       \<and> real_of_int (sum_list (map (\<lambda>d. total_driving_minutes (summary d)) days)) / 60
           \<le> min total_trip_hours (70 - cycle_hours_used) + 1 / 120"
proof -
  let ?rem = "max (CYCLE_LIMIT_HOURS - cycle_hours_used) 0"
  let ?hrs = "min total_trip_hours ?rem"
  have days: "days = schedule_loop 1 ?hrs ?rem []" and pos: "0 < ?hrs"
    using assms(5) by (auto simp: plan_days_def Let_def split: if_splits)
  have rem: "?rem = 70 - cycle_hours_used"
    using assms(3) by (simp add: CYCLE_LIMIT_HOURS_def)
  have nn: "0 \<le> ?hrs"
    using pos by (rule less_imp_le)
  have "generate_driver_logs total_trip_hours cycle_hours_used =
           Inr (map (\<lambda>d. as_payload (summary d)) days)"
    by (simp add: generate_driver_logs_def assms(5))
  moreover have "\<forall>d \<in> set days.
             planned_driving d \<le> 11 \<and> planned_on_duty d \<le> 14
           \<and> total_driving_minutes (summary d) = py_round (planned_driving d * 60)
           \<and> total_on_duty_minutes (summary d) = py_round (planned_on_duty d * 60)
           \<and> total_driving_minutes (summary d) \<le> 11 * 60
           \<and> total_on_duty_minutes (summary d) \<le> 14 * 60"
  proof
    fix d
    assume "d \<in> set days"
    then have d: "planned_driving d \<le> 11 \<and> planned_on_duty d \<le> 14
       \<and> total_driving_minutes (summary d) = py_round (planned_driving d * 60)
       \<and> total_on_duty_minutes (summary d) = py_round (planned_on_duty d * 60)"
      using schedule_loop_bounds [of "[]" 1 ?hrs ?rem] unfolding days by simp
    then have "py_round (planned_driving d * 60) \<le> 660"
      "py_round (planned_on_duty d * 60) \<le> 840"
      by (auto intro!: py_round_le)
    then show "planned_driving d \<le> 11 \<and> planned_on_duty d \<le> 14
           \<and> total_driving_minutes (summary d) = py_round (planned_driving d * 60)
           \<and> total_on_duty_minutes (summary d) = py_round (planned_on_duty d * 60)
           \<and> total_driving_minutes (summary d) \<le> 11 * 60
           \<and> total_on_duty_minutes (summary d) \<le> 14 * 60"
      using d by simp
  qed
  moreover have "real_of_int (sum_list (map (\<lambda>d. total_driving_minutes (summary d)) days)) / 60
           \<le> min total_trip_hours (70 - cycle_hours_used) + 1 / 120"
  proof -
    have "real_of_int (sum_list (map (\<lambda>d. total_driving_minutes (summary d))
                  (schedule_loop 1 ?hrs ?rem [])))
            \<le> real_of_int (sum_list (map (\<lambda>d. total_driving_minutes (summary d))
                  ([]::planned_day list))) + 60 * ?hrs + 1 / 2"
      by (rule schedule_loop_minutes [OF nn])
    then have "real_of_int (sum_list (map (\<lambda>d. total_driving_minutes (summary d)) days))
                 \<le> 60 * ?hrs + 1 / 2"
      unfolding days by simp
    moreover have "x / 60 \<le> m + 1 / 120" if "x \<le> 60 * m + 1 / 2" for x m :: real
      using that by linarith
    ultimately have "real_of_int (sum_list (map (\<lambda>d. total_driving_minutes (summary d)) days)) / 60
                 \<le> ?hrs + 1 / 120"
      by blast
    then show ?thesis
      by (simp only: rem)
  qed
  moreover have "sum_list (map planned_driving days)
               \<le> min total_trip_hours (70 - cycle_hours_used) + eps"
  proof -
    have "sum_list (map planned_driving (schedule_loop 1 ?hrs ?rem []))
            \<le> sum_list (map planned_driving ([]::planned_day list)) + ?hrs"
      by (rule schedule_loop_sum [OF nn])
    then have "sum_list (map planned_driving days) \<le> ?hrs"
      unfolding days by (simp only: list.map sum_list.Nil add_0)
    also have "?hrs = min total_trip_hours (70 - cycle_hours_used)"
      by (simp only: rem)
    finally show ?thesis using assms(4) by linarith
  qed
  ultimately show ?thesis by blast
qed

theorem scheduled_days_within_limits_witness:
  "(0::real) \<le> 20 \<and> (0::real) \<le> 0 \<and> (0::real) < 70 \<and> (0::real) \<le> 0
   \<and> plan_days 20 0 = Inr
        [\<lparr> planned_driving = 11, planned_on_duty = 13, summary = make_summary 1 11 13 57 \<rparr>,
         \<lparr> planned_driving = 9, planned_on_duty = 11, summary = make_summary 2 9 11 46 \<rparr>]
   \<and> generate_driver_logs 20 0 = Inr
        [as_payload (make_summary 1 11 13 57), as_payload (make_summary 2 9 11 46)]
   \<and> total_driving_minutes (make_summary 1 11 13 57) = 660
   \<and> total_on_duty_minutes (make_summary 1 11 13 57) = 780
   \<and> total_driving_minutes (make_summary 2 9 11 46) = 540
   \<and> sum_list (map planned_driving
        [\<lparr> planned_driving = 11, planned_on_duty = 13, summary = make_summary 1 11 13 57 \<rparr>,
         \<lparr> planned_driving = 9, planned_on_duty = 11, summary = make_summary 2 9 11 46 \<rparr>])
       \<le> min 20 (70 - 0) + 0"
proof -
  note th = scheduled_days_within_limits [OF _ _ _ _ plan_days_20_0, of 0]
  have logs: "generate_driver_logs 20 0 = Inr
        [as_payload (make_summary 1 11 13 57), as_payload (make_summary 2 9 11 46)]"
    using th by simp
  have total: "sum_list (map planned_driving
        [\<lparr> planned_driving = 11, planned_on_duty = 13, summary = make_summary 1 11 13 57 \<rparr>,
         \<lparr> planned_driving = 9, planned_on_duty = 11, summary = make_summary 2 9 11 46 \<rparr>])
       \<le> min 20 (70 - 0) + (0::real)"
    using th by simp
  have minutes: "total_driving_minutes (make_summary 1 11 13 57) = 660
     \<and> total_on_duty_minutes (make_summary 1 11 13 57) = 780
     \<and> total_driving_minutes (make_summary 2 9 11 46) = 540"
    by (simp add: make_summary_def py_round_def Let_def)
  show ?thesis
    using logs total minutes plan_days_20_0 by simp
qed

text \<open>
  A trip of 0.01 hours (0.6 minutes) is emitted as one driving minute: the emitted
  total can exceed the hours to schedule, by less than the half minute above.
\<close>

lemma emitted_minutes_round_up:
  "plan_days (1 / 100) 0 = Inr
     [\<lparr> planned_driving = 1 / 100, planned_on_duty = 201 / 100,
         summary = make_summary 1 (1 / 100) (201 / 100) (6799 / 100) \<rparr>]
   \<and> total_driving_minutes (make_summary 1 (1 / 100) (201 / 100) (6799 / 100)) = 1"
  by (simp add: plan_days_def schedule_loop.simps Let_def CYCLE_LIMIT_HOURS_def
        DRIVING_LIMIT_PER_DAY_def ON_DUTY_BUFFER_HOURS_def ON_DUTY_LIMIT_PER_DAY_def
        make_summary_def py_round_def)

section \<open>The alert evaluator\<close>

lemma filter_add_alert:
  "filter P (add_alert alerts lvl rl msg day) =
     filter P alerts @
       (if P \<lparr> a_level = lvl, a_rule = rl, a_message = msg, a_day_number = day \<rparr>
        then [\<lparr> a_level = lvl, a_rule = rl, a_message = msg, a_day_number = day \<rparr>] else [])"
  by (simp add: add_alert_def)

text \<open>
  Of the three checks of a day only the first emits alerts of the driving rule.
\<close>

lemma evaluate_day_driving_rule:
  "filter (\<lambda>a. a_rule a = ''11-hour driving limit'') (evaluate_day alerts payload) =
     filter (\<lambda>a. a_rule a = ''11-hour driving limit'') alerts @
     (if payload_driving payload > 11 + 1 / 10 ^ 6 then
        [\<lparr> a_level = ''danger'', a_rule = ''11-hour driving limit'',
            a_message = DrivingExceedsLimit (payload_day_number payload) (payload_driving payload),
            a_day_number = payload_day_number payload \<rparr>]
      else if payload_driving payload \<ge> 11 * 0.95 then
        [\<lparr> a_level = ''warning'', a_rule = ''11-hour driving limit'',
            a_message = DrivingNearLimit (payload_day_number payload) (payload_driving payload),
            a_day_number = payload_day_number payload \<rparr>]
      else [])"
proof -
  let ?P = "\<lambda>a. a_rule a = ''11-hour driving limit''"
  have cycle: "filter ?P
      (case rem of
         None \<Rightarrow> a2
       | Some rc \<Rightarrow>
           if rc < - (1 / 10 ^ 6) then
             add_alert a2 ''danger'' ''70-hour/8-day cycle'' CycleHoursExceeded day
           else if rc \<le> 8 then
             add_alert a2 ''warning'' ''70-hour/8-day cycle'' (CycleHoursLow rc day) day
           else a2) = filter ?P a2" for rem a2 day
    by (cases rem) (simp_all add: filter_add_alert)
  have duty: "filter ?P
      (if on_duty > ON_DUTY_LIMIT_PER_DAY + 1 / 10 ^ 6 then
         add_alert a1 ''danger'' ''14-hour on-duty window'' (OnDutyExceedsLimit day on_duty) day
       else if on_duty \<ge> ON_DUTY_LIMIT_PER_DAY * 0.95 then
         add_alert a1 ''warning'' ''14-hour on-duty window'' (OnDutyNearLimit day on_duty) day
       else a1) = filter ?P a1" for on_duty a1 day
    by (simp add: filter_add_alert)
  have drv: "filter ?P
      (if driving > DRIVING_LIMIT_PER_DAY + 1 / 10 ^ 6 then
         add_alert alerts ''danger'' ''11-hour driving limit'' (DrivingExceedsLimit day driving) day
       else if driving \<ge> DRIVING_LIMIT_PER_DAY * 0.95 then
         add_alert alerts ''warning'' ''11-hour driving limit'' (DrivingNearLimit day driving) day
       else alerts) =
      filter ?P alerts @
      (if driving > 11 + 1 / 10 ^ 6 then
        [\<lparr> a_level = ''danger'', a_rule = ''11-hour driving limit'',
            a_message = DrivingExceedsLimit day driving, a_day_number = day \<rparr>]
       else if driving \<ge> 11 * 0.95 then
        [\<lparr> a_level = ''warning'', a_rule = ''11-hour driving limit'',
            a_message = DrivingNearLimit day driving, a_day_number = day \<rparr>]
       else [])" for driving day
    by (simp add: filter_add_alert DRIVING_LIMIT_PER_DAY_def)
  show ?thesis
    unfolding evaluate_day_def Let_def by (simp only: cycle duty drv)
qed

text \<open>
  Claim C2, as amended. For a plan of one day the alerts of the rule
  ``11-hour driving limit'' are: one danger-level alert when the driving hours exceed
  \<open>11 + 10\<^sup>-\<^sup>6\<close>; otherwise one warning-level alert when they are at least
  \<open>0.95 \<times> 11 = 10.45\<close>; otherwise none. So 10.5 hours give a warning, 11.5 hours a
  danger, and exactly 11.0 hours give a warning (not silence).
\<close>

theorem driving_rule_alert:
  "filter (\<lambda>a. a_rule a = ''11-hour driving limit'')
     (evaluate_hos_alerts [payload] cycle_hours_used) =
     (if payload_driving payload > 11 + 1 / 10 ^ 6 then
        [\<lparr> a_level = ''danger'', a_rule = ''11-hour driving limit'',
            a_message = DrivingExceedsLimit (payload_day_number payload) (payload_driving payload),
            a_day_number = payload_day_number payload \<rparr>]
      else if payload_driving payload \<ge> 11 * 0.95 then
        [\<lparr> a_level = ''warning'', a_rule = ''11-hour driving limit'',
            a_message = DrivingNearLimit (payload_day_number payload) (payload_driving payload),
            a_day_number = payload_day_number payload \<rparr>]
      else [])"
proof -
  have "filter (\<lambda>a. a_rule a = ''11-hour driving limit'')
          (evaluate_hos_alerts [payload] cycle_hours_used) =
        filter (\<lambda>a. a_rule a = ''11-hour driving limit'') (evaluate_day [] payload)"
    by (simp add: evaluate_hos_alerts_def add_alert_def Let_def)
  then show ?thesis
    by (simp only: evaluate_day_driving_rule filter.simps append_Nil)
qed


text \<open>The three driving totals of the claim: 660, 630 and 690 minutes.\<close>

theorem driving_rule_alert_witness:
  "filter (\<lambda>a. a_rule a = ''11-hour driving limit'')
     (evaluate_hos_alerts
        [\<lparr> p_day_number = Some 1, p_total_driving_minutes = Some 660,
            p_total_driving_hours = None, p_total_on_duty_minutes = Some 780,
            p_total_on_duty_hours = None, p_total_off_duty_minutes = Some 600,
            p_total_sleeper_minutes = Some 0, p_remaining_cycle_hours = Some 57,
            p_segments = [], p_notes = [] \<rparr>] 0) =
     [\<lparr> a_level = ''warning'', a_rule = ''11-hour driving limit'',
         a_message = DrivingNearLimit (Some 1) 11, a_day_number = Some 1 \<rparr>]
   \<and> filter (\<lambda>a. a_rule a = ''11-hour driving limit'')
     (evaluate_hos_alerts
        [\<lparr> p_day_number = Some 1, p_total_driving_minutes = Some 630,
            p_total_driving_hours = None, p_total_on_duty_minutes = Some 750,
            p_total_on_duty_hours = None, p_total_off_duty_minutes = Some 600,
            p_total_sleeper_minutes = Some 0, p_remaining_cycle_hours = Some 57,
            p_segments = [], p_notes = [] \<rparr>] 0) =
     [\<lparr> a_level = ''warning'', a_rule = ''11-hour driving limit'',
         a_message = DrivingNearLimit (Some 1) (21 / 2), a_day_number = Some 1 \<rparr>]
   \<and> filter (\<lambda>a. a_rule a = ''11-hour driving limit'')
     (evaluate_hos_alerts
        [\<lparr> p_day_number = Some 1, p_total_driving_minutes = Some 690,
            p_total_driving_hours = None, p_total_on_duty_minutes = Some 810,
            p_total_on_duty_hours = None, p_total_off_duty_minutes = Some 600,
            p_total_sleeper_minutes = Some 0, p_remaining_cycle_hours = Some 57,
            p_segments = [], p_notes = [] \<rparr>] 0) =
     [\<lparr> a_level = ''danger'', a_rule = ''11-hour driving limit'',
         a_message = DrivingExceedsLimit (Some 1) (23 / 2), a_day_number = Some 1 \<rparr>]"
proof (intro conjI)
  show "filter (\<lambda>a. a_rule a = ''11-hour driving limit'')
     (evaluate_hos_alerts
        [\<lparr> p_day_number = Some 1, p_total_driving_minutes = Some 660,
            p_total_driving_hours = None, p_total_on_duty_minutes = Some 780,
            p_total_on_duty_hours = None, p_total_off_duty_minutes = Some 600,
            p_total_sleeper_minutes = Some 0, p_remaining_cycle_hours = Some 57,
            p_segments = [], p_notes = [] \<rparr>] 0) =
     [\<lparr> a_level = ''warning'', a_rule = ''11-hour driving limit'',
         a_message = DrivingNearLimit (Some 1) 11, a_day_number = Some 1 \<rparr>]"
    by (subst driving_rule_alert) (simp add: payload_driving_def payload_day_number_def)
  show "filter (\<lambda>a. a_rule a = ''11-hour driving limit'')
     (evaluate_hos_alerts
        [\<lparr> p_day_number = Some 1, p_total_driving_minutes = Some 630,
            p_total_driving_hours = None, p_total_on_duty_minutes = Some 750,
            p_total_on_duty_hours = None, p_total_off_duty_minutes = Some 600,
            p_total_sleeper_minutes = Some 0, p_remaining_cycle_hours = Some 57,
            p_segments = [], p_notes = [] \<rparr>] 0) =
     [\<lparr> a_level = ''warning'', a_rule = ''11-hour driving limit'',
         a_message = DrivingNearLimit (Some 1) (21 / 2), a_day_number = Some 1 \<rparr>]"
    by (subst driving_rule_alert) (simp add: payload_driving_def payload_day_number_def)
  show "filter (\<lambda>a. a_rule a = ''11-hour driving limit'')
     (evaluate_hos_alerts
        [\<lparr> p_day_number = Some 1, p_total_driving_minutes = Some 690,
            p_total_driving_hours = None, p_total_on_duty_minutes = Some 810,
            p_total_on_duty_hours = None, p_total_off_duty_minutes = Some 600,
            p_total_sleeper_minutes = Some 0, p_remaining_cycle_hours = Some 57,
            p_segments = [], p_notes = [] \<rparr>] 0) =
     [\<lparr> a_level = ''danger'', a_rule = ''11-hour driving limit'',
         a_message = DrivingExceedsLimit (Some 1) (23 / 2), a_day_number = Some 1 \<rparr>]"
    by (subst driving_rule_alert) (simp add: payload_driving_def payload_day_number_def)
qed

text \<open>
  Claim C2 as stated fails: a day with exactly 11.0 driving hours (660 minutes, the
  full day that the scheduler itself plans) gets the warning of the driving rule.
\<close>

theorem eleven_hours_no_alert_counterexample:
  "evaluate_hos_alerts
     [\<lparr> p_day_number = Some 1, p_total_driving_minutes = Some 660,
         p_total_driving_hours = None, p_total_on_duty_minutes = Some 780,
         p_total_on_duty_hours = None, p_total_off_duty_minutes = Some 600,
         p_total_sleeper_minutes = Some 0, p_remaining_cycle_hours = Some 57,
         p_segments = [], p_notes = [] \<rparr>] 0 =
   [\<lparr> a_level = ''warning'', a_rule = ''11-hour driving limit'',
       a_message = DrivingNearLimit (Some 1) 11, a_day_number = Some 1 \<rparr>]"
  by (simp add: evaluate_hos_alerts_def evaluate_day_def add_alert_def Let_def
        payload_driving_def payload_on_duty_def payload_day_number_def entry_on_duty_hours_def
        DRIVING_LIMIT_PER_DAY_def ON_DUTY_LIMIT_PER_DAY_def CYCLE_LIMIT_HOURS_def)

section \<open>The duty segment validator\<close>

text \<open>Every exception of the parsing and validation steps is a \<open>ValidationError\<close>.\<close>

lemma parse_time_error:
  "parse_time strptime label v = Inl e \<Longrightarrow> \<exists>msg. e = ValidationError msg"
  by (auto simp: parse_time_def split: pyval.splits if_splits option.splits)

lemma validate_error:
  "validate seg = Inl e \<Longrightarrow> \<exists>msg. e = ValidationError msg"
  by (auto simp: validate_def Let_def split: if_splits)

lemma validate_ok:
  "validate seg = Inr u \<Longrightarrow>
     si_status seg \<in> VALID_STATUSES \<and> si_start_time seg < si_end_time seg
   \<and> duration_minutes seg mod 15 = 0"
  by (auto simp: validate_def Let_def FIFTEEN_MINUTES_def split: if_splits)

lemma normalise_segment_error:
  "normalise_segment strptime raw = Inl e \<Longrightarrow> \<exists>msg. e = ValidationError msg"
  by (auto simp: normalise_segment_def Let_def split: sum.splits
      dest: parse_time_error validate_error)

lemma normalise_segment_ok:
  assumes "normalise_segment strptime raw = Inr seg"
  shows "parse_time strptime ''startTime'' (dict_get raw ''startTime'') = Inr (si_start_time seg)"
    and "parse_time strptime ''endTime'' (dict_get raw ''endTime'') = Inr (si_end_time seg)"
    and "si_status seg = dict_get_default raw ''status'' (PyStr STATUS_OFF_DUTY)"
    and "si_status seg \<in> VALID_STATUSES"
    and "si_start_time seg < si_end_time seg"
    and "duration_minutes seg mod 15 = 0"
  using assms
  by (auto simp: normalise_segment_def Let_def split: sum.splits dest: validate_ok)

lemma normalise_segments_error:
  "normalise_segments strptime raws = Inl e \<Longrightarrow> \<exists>msg. e = ValidationError msg"
  by (induction raws arbitrary: e)
     (auto split: sum.splits dest: normalise_segment_error)

text \<open>
  When \<^verbatim>\<open>_normalise_segments\<close> returns, its result holds one validated segment for each
  raw segment, in order.
\<close>

lemma normalise_segments_ok:
  "normalise_segments strptime raws = Inr segs \<Longrightarrow>
     list_all2 (\<lambda>raw seg. normalise_segment strptime raw = Inr seg) raws segs"
  by (induction raws arbitrary: segs) (auto split: sum.splits)

text \<open>
  The loop over validated segments never meets an unknown key of \<^verbatim>\<open>totals\<close>: its only
  exception is the overlap error. When it returns, the cursor has advanced by the
  durations; when two neighbours overlap, it raises.
\<close>

lemma add_minutes_valid:
  "status \<in> VALID_STATUSES \<Longrightarrow> \<exists>totals'. add_minutes status m totals = Inr totals'"
  by (auto simp: add_minutes_def VALID_STATUSES_def)

lemma sum_segments_error:
  "\<forall>s \<in> set segs. si_status s \<in> VALID_STATUSES \<Longrightarrow>
   sum_segments segs totals c last_end = Inl e \<Longrightarrow>
   e = ValidationError ''Duty segments may not overlap''"
proof (induction segs arbitrary: totals c last_end)
  case Nil
  then show ?case by simp
next
  case (Cons s segs)
  obtain totals' where t: "add_minutes (si_status s) (duration_minutes s) totals = Inr totals'"
    using add_minutes_valid Cons.prems(1) by (metis list.set_intros(1))
  show ?case
    using Cons.prems Cons.IH [of totals' "c + duration_minutes s" "Some (si_end_time s)"]
    by (auto simp: Let_def t split: if_splits)
qed

lemma sum_segments_cursor:
  "sum_segments segs totals c last_end = Inr (totals', c') \<Longrightarrow>
   c' = c + sum_list (map duration_minutes segs)"
proof (induction segs arbitrary: totals c last_end)
  case Nil
  then show ?case by simp
next
  case (Cons a segs)
  from Cons.prems obtain t where
    "sum_segments segs t (c + duration_minutes a) (Some (si_end_time a)) = Inr (totals', c')"
    by (auto simp: Let_def split: sum.splits if_splits)
  from Cons.IH [OF this] show ?case by simp
qed

lemma sum_segments_overlap:
  "Suc i < length segs \<Longrightarrow> si_start_time (segs ! Suc i) < si_end_time (segs ! i) \<Longrightarrow>
   \<exists>e. sum_segments segs totals c last_end = Inl e"
proof (induction segs arbitrary: i totals c last_end)
  case Nil
  then show ?case by simp
next
  case (Cons a segs)
  show ?case
  proof (cases "sum_segments (a # segs) totals c last_end")
    case (Inl e)
    then show ?thesis by blast
  next
    case (Inr r)
    then obtain totals' where
      rest: "sum_segments segs totals' (c + duration_minutes a) (Some (si_end_time a)) = Inr r"
      by (auto simp: Let_def split: sum.splits if_splits)
    show ?thesis
    proof (cases i)
      case 0
      then obtain b segs' where segs: "segs = b # segs'"
        using Cons.prems(1) by (cases segs) auto
      then have "si_start_time b < si_end_time a"
        using Cons.prems(2) 0 by simp
      then show ?thesis
        using rest segs by (auto simp: Let_def split: sum.splits)
    next
      case (Suc j)
      then have "Suc j < length segs" "si_start_time (segs ! Suc j) < si_end_time (segs ! j)"
        using Cons.prems by auto
      from Cons.IH [OF this, of totals' "c + duration_minutes a" "Some (si_end_time a)"]
      show ?thesis using rest by auto
    qed
  qed
qed


text \<open>The exits of \<^verbatim>\<open>upsert_driver_log\<close> that raise, each leaving the database as it was.\<close>

lemma upsert_day_number:
  "day \<le> 0 \<Longrightarrow>
   upsert_driver_log strptime today user trip_id day log_date notes raws miles db =
     (Inl (ValidationError ''dayNumber must be 1 or greater''), db)"
  by (simp add: upsert_driver_log_def atomic_def upsert_driver_log_body_def)

lemma upsert_trip_not_found:
  "0 < day \<Longrightarrow> find (\<lambda>t. t_id t = trip_id \<and> t_user t = user) (db_trips db) = None \<Longrightarrow>
   upsert_driver_log strptime today user trip_id day log_date notes raws miles db =
     (Inl (PermissionDenied ''Trip not found''), db)"
  by (simp add: upsert_driver_log_def atomic_def upsert_driver_log_body_def)

lemma upsert_normalise_error:
  "0 < day \<Longrightarrow> find (\<lambda>t. t_id t = trip_id \<and> t_user t = user) (db_trips db) = Some trip \<Longrightarrow>
   normalise_segments strptime raws = Inl e \<Longrightarrow>
   upsert_driver_log strptime today user trip_id day log_date notes raws miles db = (Inl e, db)"
  by (simp add: upsert_driver_log_def atomic_def upsert_driver_log_body_def)

lemma upsert_sum_error:
  "0 < day \<Longrightarrow> find (\<lambda>t. t_id t = trip_id \<and> t_user t = user) (db_trips db) = Some trip \<Longrightarrow>
   normalise_segments strptime raws = Inr segs \<Longrightarrow> segs \<noteq> [] \<Longrightarrow>
   sum_segments segs \<lparr> mt_off_duty = 0, mt_sleeper = 0, mt_driving = 0, mt_on_duty = 0 \<rparr> 0 None
     = Inl e \<Longrightarrow>
   upsert_driver_log strptime today user trip_id day log_date notes raws miles db = (Inl e, db)"
  by (simp add: upsert_driver_log_def atomic_def upsert_driver_log_body_def)

lemma upsert_too_long:
  "0 < day \<Longrightarrow> find (\<lambda>t. t_id t = trip_id \<and> t_user t = user) (db_trips db) = Some trip \<Longrightarrow>
   normalise_segments strptime raws = Inr segs \<Longrightarrow> segs \<noteq> [] \<Longrightarrow>
   sum_segments segs \<lparr> mt_off_duty = 0, mt_sleeper = 0, mt_driving = 0, mt_on_duty = 0 \<rparr> 0 None
     = Inr (totals, c) \<Longrightarrow> MINUTES_PER_DAY < c \<Longrightarrow>
   upsert_driver_log strptime today user trip_id day log_date notes raws miles db =
     (Inl (ValidationError ''Daily duty segments exceed 24 hours''), db)"
  by (simp add: upsert_driver_log_def atomic_def upsert_driver_log_body_def)

lemma normalised_valid:
  assumes "normalise_segments strptime raws = Inr segs"
  shows "\<forall>s \<in> set segs. si_status s \<in> VALID_STATUSES"
proof -
  have "list_all2 (\<lambda>raw seg. normalise_segment strptime raw = Inr seg) raws segs"
    using assms by (rule normalise_segments_ok)
  then have "\<forall>i < length segs. si_status (segs ! i) \<in> VALID_STATUSES"
    using normalise_segment_ok(4) by (fastforce simp: list_all2_conv_all_nth)
  then show ?thesis
    by (auto simp: in_set_conv_nth)
qed

text \<open>
  Claim C4, as amended. Let a segment list have an overlap (a segment whose parsed
  start time is strictly before the parsed end time of the segment before it), or a
  segment whose parsed times span a number of minutes not divisible by 15, or
  durations that sum to more than 1440 minutes. Then \<^verbatim>\<open>upsert_driver_log\<close> persists nothing,
  and it raises \<open>ValidationError\<close> whenever \<open>day_number \<le> 0\<close> or the trip exists and is
  the caller's; otherwise (no such trip of that user) it raises
  \<open>PermissionDenied\<close> before looking at the segments.
\<close>

theorem upsert_rejects_bad_segments:
  assumes bad:
    "(\<exists>i s e. Suc i < length raws
        \<and> parse_time strptime ''endTime'' (dict_get (raws ! i) ''endTime'') = Inr e
        \<and> parse_time strptime ''startTime'' (dict_get (raws ! Suc i) ''startTime'') = Inr s
        \<and> s < e)
     \<or> (\<exists>i s e. i < length raws
        \<and> parse_time strptime ''startTime'' (dict_get (raws ! i) ''startTime'') = Inr s
        \<and> parse_time strptime ''endTime'' (dict_get (raws ! i) ''endTime'') = Inr e
        \<and> (int e - int s) mod 15 \<noteq> 0)
     \<or> (\<exists>segs. normalise_segments strptime raws = Inr segs
        \<and> 1440 < sum_list (map duration_minutes segs))"
  shows "\<exists>msg.
     upsert_driver_log strptime today user trip_id day log_date notes raws miles db =
       (if day \<le> 0 \<or> find (\<lambda>t. t_id t = trip_id \<and> t_user t = user) (db_trips db) \<noteq> None
        then (Inl (ValidationError msg), db)
        else (Inl (PermissionDenied ''Trip not found''), db))"
proof (cases "day \<le> 0")
  case True
  then show ?thesis by (auto simp: upsert_day_number)
next
  case False
  then have day: "0 < day" by simp
  show ?thesis
  proof (cases "find (\<lambda>t. t_id t = trip_id \<and> t_user t = user) (db_trips db)")
    case None
    then show ?thesis using day by (simp add: upsert_trip_not_found)
  next
    case (Some trip)
    have goal: "\<exists>msg. upsert_driver_log strptime today user trip_id day log_date notes raws miles db
                  = (Inl (ValidationError msg), db)"
    proof (cases "normalise_segments strptime raws")
      case (Inl e)
      then obtain msg where "e = ValidationError msg"
        using normalise_segments_error by blast
      then show ?thesis
        using upsert_normalise_error [OF day Some Inl] by auto
    next
      case (Inr segs)
      have all2: "list_all2 (\<lambda>raw seg. normalise_segment strptime raw = Inr seg) raws segs"
        using Inr by (rule normalise_segments_ok)
      then have len: "length segs = length raws"
        by (simp add: list_all2_lengthD)
      have nth: "normalise_segment strptime (raws ! i) = Inr (segs ! i)" if "i < length raws" for i
        using all2 that by (simp add: list_all2_conv_all_nth)
      have valid: "\<forall>s \<in> set segs. si_status s \<in> VALID_STATUSES"
        using Inr by (rule normalised_valid)
      let ?init = "\<lparr> mt_off_duty = 0, mt_sleeper = 0, mt_driving = 0, mt_on_duty = 0 \<rparr>"
      have sum_err: "\<exists>msg. upsert_driver_log strptime today user trip_id day log_date notes raws
                       miles db = (Inl (ValidationError msg), db)"
        if "sum_segments segs ?init 0 None = Inl e" and "segs \<noteq> []" for e
        using upsert_sum_error [OF day Some Inr that(2) that(1)]
          sum_segments_error [OF valid that(1)] by auto
      from bad consider
        (overlap) i s e where "Suc i < length raws"
          "parse_time strptime ''endTime'' (dict_get (raws ! i) ''endTime'') = Inr e"
          "parse_time strptime ''startTime'' (dict_get (raws ! Suc i) ''startTime'') = Inr s"
          "s < e"
      | (increment) i s e where "i < length raws"
          "parse_time strptime ''startTime'' (dict_get (raws ! i) ''startTime'') = Inr s"
          "parse_time strptime ''endTime'' (dict_get (raws ! i) ''endTime'') = Inr e"
          "(int e - int s) mod 15 \<noteq> 0"
      | (total) segs' where "normalise_segments strptime raws = Inr segs'"
          "1440 < sum_list (map duration_minutes segs')"
        by blast
      then show ?thesis
      proof cases
        case overlap
        have "si_end_time (segs ! i) = e"
          using normalise_segment_ok(2) [OF nth [of i]] overlap(1,2) by simp
        moreover have "si_start_time (segs ! Suc i) = s"
          using normalise_segment_ok(1) [OF nth [of "Suc i"]] overlap(1,3) by simp
        ultimately have "si_start_time (segs ! Suc i) < si_end_time (segs ! i)"
          using overlap(4) by simp
        moreover have "Suc i < length segs"
          using overlap(1) len by simp
        ultimately obtain e' where "sum_segments segs ?init 0 None = Inl e'"
          using sum_segments_overlap by blast
        moreover have "segs \<noteq> []"
          using \<open>Suc i < length segs\<close> by auto
        ultimately show ?thesis by (rule sum_err)
      next
        case increment
        have "si_start_time (segs ! i) = s" "si_end_time (segs ! i) = e"
          using normalise_segment_ok(1,2) [OF nth [of i]] increment(1,2,3) by simp_all
        then have "(int e - int s) mod 15 = 0"
          using normalise_segment_ok(6) [OF nth [of i]] increment(1)
          by (simp add: duration_minutes_def)
        then show ?thesis using increment(4) by simp
      next
        case total
        then have long: "1440 < sum_list (map duration_minutes segs)"
          using Inr by simp
        then have ne: "segs \<noteq> []" by auto
        show ?thesis
        proof (cases "sum_segments segs ?init 0 None")
          case (Inl e)
          then show ?thesis using ne by (rule sum_err)
        next
          case (Inr r)
          obtain totals c where r: "r = (totals, c)" by (cases r)
          have "c = 0 + sum_list (map duration_minutes segs)"
            using Inr unfolding r by (rule sum_segments_cursor)
          then have "MINUTES_PER_DAY < c"
            using long by (simp add: MINUTES_PER_DAY_def)
          then show ?thesis
            using upsert_too_long [OF day Some \<open>normalise_segments strptime raws = Inr segs\<close> ne
                Inr [unfolded r]] by auto
        qed
      qed
    qed
    then show ?thesis using Some by simp
  qed
qed

text \<open>Unfolding for running the validator on example requests.\<close>

lemmas upsert_example_simps = example_db_def example_trip_def example_log_def example_segment_def
  upsert_driver_log_def atomic_def upsert_driver_log_body_def
  normalise_segment_def parse_time_def dict_get_def dict_get_default_def validate_def
  digit_value_def add_minutes_def VALID_STATUSES_def
  STATUS_OFF_DUTY_def STATUS_SLEEPER_def STATUS_DRIVING_def STATUS_ON_DUTY_def
  duration_minutes_def Let_def FIFTEEN_MINUTES_def MINUTES_PER_DAY_def or_empty_def

text \<open>
  Two segments 08:00--10:00 and 09:00--11:00 for the caller's own trip: the second
  starts before the first ends.
\<close>

theorem upsert_rejects_bad_segments_witness:
  "Suc 0 < length [example_segment ''DRIVING'' ''08:00'' ''10:00'',
                   example_segment ''ON_DUTY'' ''09:00'' ''11:00'']
   \<and> parse_time strptime_hhmm ''endTime''
        (dict_get (example_segment ''DRIVING'' ''08:00'' ''10:00'') ''endTime'') = Inr 600
   \<and> parse_time strptime_hhmm ''startTime''
        (dict_get (example_segment ''ON_DUTY'' ''09:00'' ''11:00'') ''startTime'') = Inr 540
   \<and> (540::nat) < 600
   \<and> (\<exists>msg. upsert_driver_log strptime_hhmm 0 1 1 1 None None
          [example_segment ''DRIVING'' ''08:00'' ''10:00'',
           example_segment ''ON_DUTY'' ''09:00'' ''11:00''] None
          (example_db [example_trip 1 1 ''PLANNED''] []) =
        (Inl (ValidationError msg), example_db [example_trip 1 1 ''PLANNED''] []))
   \<and> upsert_driver_log strptime_hhmm 0 1 1 1 None None
          [example_segment ''DRIVING'' ''08:00'' ''10:00'',
           example_segment ''ON_DUTY'' ''09:00'' ''11:00''] None
          (example_db [example_trip 1 1 ''PLANNED''] []) =
        (Inl (ValidationError ''Duty segments may not overlap''),
         example_db [example_trip 1 1 ''PLANNED''] [])"
proof -
  let ?raws = "[example_segment ''DRIVING'' ''08:00'' ''10:00'',
                example_segment ''ON_DUTY'' ''09:00'' ''11:00'']"
  let ?db = "example_db [example_trip 1 1 ''PLANNED''] []"
  have e: "parse_time strptime_hhmm ''endTime'' (dict_get (?raws ! 0) ''endTime'') = Inr 600"
    by (simp add: parse_time_def dict_get_def example_segment_def digit_value_def)
  have s: "parse_time strptime_hhmm ''startTime'' (dict_get (?raws ! Suc 0) ''startTime'') = Inr 540"
    by (simp add: parse_time_def dict_get_def example_segment_def digit_value_def)
  have bad: "\<exists>i s e. Suc i < length ?raws
        \<and> parse_time strptime_hhmm ''endTime'' (dict_get (?raws ! i) ''endTime'') = Inr e
        \<and> parse_time strptime_hhmm ''startTime'' (dict_get (?raws ! Suc i) ''startTime'') = Inr s
        \<and> s < e"
    using e s by (intro exI [of _ 0] exI [of _ 540] exI [of _ 600]) simp
  have found: "find (\<lambda>t. t_id t = 1 \<and> t_user t = 1) (db_trips ?db) \<noteq> None"
    by (simp add: example_db_def example_trip_def)
  have "\<exists>msg. upsert_driver_log strptime_hhmm 0 1 1 1 None None ?raws None ?db =
          (Inl (ValidationError msg), ?db)"
    using upsert_rejects_bad_segments [of ?raws strptime_hhmm 0 1 1 1 None None None ?db,
        OF disjI1, OF bad] found
    by simp
  moreover have "upsert_driver_log strptime_hhmm 0 1 1 1 None None ?raws None ?db =
          (Inl (ValidationError ''Duty segments may not overlap''), ?db)"
    by (simp add: upsert_example_simps)
  ultimately show ?thesis
    using e s by simp
qed

text \<open>
  Claim C4 as stated fails: the same overlapping segments sent for a trip of another
  user raise \<open>PermissionDenied\<close>, not \<open>ValidationError\<close>.
\<close>

theorem upsert_foreign_trip_counterexample:
  "upsert_driver_log strptime_hhmm 0 2 1 1 None None
      [example_segment ''DRIVING'' ''08:00'' ''10:00'',
       example_segment ''ON_DUTY'' ''09:00'' ''11:00''] None
      (example_db [example_trip 1 1 ''PLANNED''] []) =
     (Inl (PermissionDenied ''Trip not found''),
      example_db [example_trip 1 1 ''PLANNED''] [])"
  by (simp add: upsert_example_simps)


text \<open>
  Claim C8, as amended. \<^verbatim>\<open>upsert_driver_log\<close> gives the caller the same outcome whether
  the trip does not exist (database \<open>db1\<close>) or exists and belongs to another user
  (database \<open>db2\<close>): the day-number \<open>ValidationError\<close> or else
  \<open>PermissionDenied "Trip not found"\<close>, with nothing written. \<^verbatim>\<open>delete_driver_log\<close> tells
  the two apart: it returns \<open>False\<close> for a log that does not exist and raises
  \<open>PermissionDenied "Not allowed to modify this log"\<close> for a log of another user's trip.
\<close>

theorem missing_and_foreign_outcomes:
  assumes absent_trip: "\<forall>t \<in> set (db_trips db1). t_id t \<noteq> trip_id"
    and foreign_trip: "\<exists>t \<in> set (db_trips db2). t_id t = trip_id"
        "\<forall>t \<in> set (db_trips db2). t_id t = trip_id \<longrightarrow> t_user t \<noteq> user"
    and absent_log: "\<forall>l \<in> set (db_logs db1). dl_id l \<noteq> log_id"
    and foreign_log: "find (\<lambda>l. dl_id l = log_id) (db_logs db2) = Some l"
        "find (\<lambda>t. t_id t = dl_trip l) (db_trips db2) = Some owner_trip"
        "t_user owner_trip \<noteq> user"
  shows "upsert_driver_log strptime today user trip_id day log_date notes raws miles db1 =
           (Inl (if day \<le> 0 then ValidationError ''dayNumber must be 1 or greater''
                 else PermissionDenied ''Trip not found''), db1)
       \<and> upsert_driver_log strptime today user trip_id day log_date notes raws miles db2 =
           (Inl (if day \<le> 0 then ValidationError ''dayNumber must be 1 or greater''
                 else PermissionDenied ''Trip not found''), db2)
       \<and> delete_driver_log user log_id db1 = (Inr False, db1)
       \<and> delete_driver_log user log_id db2 =
           (Inl (PermissionDenied ''Not allowed to modify this log''), db2)"
proof -
  have n1: "find (\<lambda>t. t_id t = trip_id \<and> t_user t = user) (db_trips db1) = None"
    using absent_trip by (auto simp: find_None_iff)
  have n2: "find (\<lambda>t. t_id t = trip_id \<and> t_user t = user) (db_trips db2) = None"
    using foreign_trip(2) by (auto simp: find_None_iff)
  have u1: "upsert_driver_log strptime today user trip_id day log_date notes raws miles db1 =
           (Inl (if day \<le> 0 then ValidationError ''dayNumber must be 1 or greater''
                 else PermissionDenied ''Trip not found''), db1)"
    using n1 by (simp add: upsert_day_number upsert_trip_not_found)
  have u2: "upsert_driver_log strptime today user trip_id day log_date notes raws miles db2 =
           (Inl (if day \<le> 0 then ValidationError ''dayNumber must be 1 or greater''
                 else PermissionDenied ''Trip not found''), db2)"
    using n2 by (simp add: upsert_day_number upsert_trip_not_found)
  have "find (\<lambda>l. dl_id l = log_id) (db_logs db1) = None"
    using absent_log by (auto simp: find_None_iff)
  then have d1: "delete_driver_log user log_id db1 = (Inr False, db1)"
    by (simp add: delete_driver_log_def atomic_def delete_driver_log_body_def)
  have d2: "delete_driver_log user log_id db2 =
           (Inl (PermissionDenied ''Not allowed to modify this log''), db2)"
    using foreign_log by (simp add: delete_driver_log_def atomic_def delete_driver_log_body_def)
  show ?thesis
    using u1 u2 d1 d2 by (intro conjI)
qed

text \<open>User 2 acting on trip 1 and log 1: absent in one database, user 1's in the other.\<close>

theorem missing_and_foreign_outcomes_witness:
  "upsert_driver_log strptime_hhmm 0 2 1 1 None None
      [example_segment ''DRIVING'' ''08:00'' ''10:00''] None (example_db [] []) =
     (Inl (PermissionDenied ''Trip not found''), example_db [] [])
   \<and> upsert_driver_log strptime_hhmm 0 2 1 1 None None
      [example_segment ''DRIVING'' ''08:00'' ''10:00''] None
      (example_db [example_trip 1 1 ''PLANNED''] [example_log 1 1]) =
     (Inl (PermissionDenied ''Trip not found''),
      example_db [example_trip 1 1 ''PLANNED''] [example_log 1 1])
   \<and> delete_driver_log 2 1 (example_db [] []) = (Inr False, example_db [] [])
   \<and> delete_driver_log 2 1 (example_db [example_trip 1 1 ''PLANNED''] [example_log 1 1]) =
     (Inl (PermissionDenied ''Not allowed to modify this log''),
      example_db [example_trip 1 1 ''PLANNED''] [example_log 1 1])"
  using missing_and_foreign_outcomes
    [of "example_db [] []" 1 "example_db [example_trip 1 1 ''PLANNED''] [example_log 1 1]" 2 1
        "example_log 1 1" "example_trip 1 1 ''PLANNED''" strptime_hhmm 0 1 None None
        "[example_segment ''DRIVING'' ''08:00'' ''10:00'']" None]
  by (simp add: example_db_def example_trip_def example_log_def)

text \<open>
  Claim C8 as stated fails for \<^verbatim>\<open>delete_driver_log\<close>: user 2 gets \<open>False\<close> for a log that
  does not exist and \<open>PermissionDenied\<close> for the log of user 1.
\<close>

theorem delete_distinguishes_counterexample:
  "delete_driver_log 2 1 (example_db [] []) = (Inr False, example_db [] [])
   \<and> delete_driver_log 2 1 (example_db [example_trip 1 1 ''PLANNED''] [example_log 1 1]) =
     (Inl (PermissionDenied ''Not allowed to modify this log''),
      example_db [example_trip 1 1 ''PLANNED''] [example_log 1 1])
   \<and> fst (delete_driver_log 2 1 (example_db [] [])) \<noteq>
     fst (delete_driver_log 2 1 (example_db [example_trip 1 1 ''PLANNED''] [example_log 1 1]))"
  by (simp add: delete_driver_log_def atomic_def delete_driver_log_body_def
        example_db_def example_trip_def example_log_def)


text \<open>
  A raw segment without the key \<^verbatim>\<open>status\<close> is normalised exactly as the same segment
  with \<^verbatim>\<open>status\<close> set to \<open>OFF_DUTY\<close>.
\<close>

lemma normalise_segment_status_default:
  assumes "raw ''status'' = None"
  shows "normalise_segment strptime raw =
         normalise_segment strptime (raw(''status'' \<mapsto> PyStr STATUS_OFF_DUTY))"
proof -
  have other: "dict_get (raw(''status'' \<mapsto> v)) k = dict_get raw k" if "k \<noteq> ''status''" for k v
    using that by (simp add: dict_get_def)
  have status: "dict_get_default (raw(''status'' \<mapsto> PyStr STATUS_OFF_DUTY)) ''status''
                  (PyStr STATUS_OFF_DUTY) =
                dict_get_default raw ''status'' (PyStr STATUS_OFF_DUTY)"
    using assms by (simp add: dict_get_default_def)
  show ?thesis
    unfolding normalise_segment_def status
    by (simp add: other cong: sum.case_cong)
qed

lemma normalise_segments_status_default:
  assumes "raw ''status'' = None"
  shows "normalise_segments strptime (before @ raw # rest) =
         normalise_segments strptime (before @ raw(''status'' \<mapsto> PyStr STATUS_OFF_DUTY) # rest)"
proof (induction before)
  case Nil
  show ?case
    by (simp only: append_Nil normalise_segments.simps
          normalise_segment_status_default [where raw = raw, OF assms, symmetric])
next
  case (Cons a before)
  show ?case
    by (simp only: append_Cons normalise_segments.simps Cons.IH)
qed

lemma off_duty_valid: "PyStr STATUS_OFF_DUTY \<in> VALID_STATUSES"
  by (simp add: VALID_STATUSES_def)

text \<open>
  Claim C10. Let the key \<^verbatim>\<open>status\<close> be absent from a raw segment. Then
  \<^verbatim>\<open>upsert_driver_log\<close> behaves as if the segment had status \<open>OFF_DUTY\<close>; when its times
  parse to a positive multiple of 15 minutes the segment is accepted with status
  \<open>OFF_DUTY\<close> and its minutes are added to the off-duty total; and its normalisation
  never raises the unsupported-status error. The same segment with a status value
  outside the four known ones (and times that parse) raises that \<open>ValidationError\<close>.
\<close>

theorem absent_status_is_off_duty:
  assumes absent: "raw ''status'' = None"
  shows "upsert_driver_log strptime today user trip_id day log_date notes
           (before @ raw # rest) miles db =
         upsert_driver_log strptime today user trip_id day log_date notes
           (before @ raw(''status'' \<mapsto> PyStr STATUS_OFF_DUTY) # rest) miles db
       \<and> (\<forall>s e. parse_time strptime ''startTime'' (dict_get raw ''startTime'') = Inr s
              \<and> parse_time strptime ''endTime'' (dict_get raw ''endTime'') = Inr e
              \<and> s < e \<and> (int e - int s) mod 15 = 0 \<longrightarrow>
            (\<exists>seg. normalise_segment strptime raw = Inr seg
               \<and> si_status seg = PyStr STATUS_OFF_DUTY
               \<and> si_start_time seg = s \<and> si_end_time seg = e
               \<and> (\<forall>totals. add_minutes (si_status seg) (duration_minutes seg) totals =
                     Inr (totals\<lparr> mt_off_duty := mt_off_duty totals + (int e - int s) \<rparr>))))
       \<and> (\<forall>detail. normalise_segment strptime raw \<noteq>
                   Inl (ValidationError (''Unsupported duty status '' @ detail)))
       \<and> (\<forall>v s e. v \<notin> VALID_STATUSES
              \<and> parse_time strptime ''startTime'' (dict_get raw ''startTime'') = Inr s
              \<and> parse_time strptime ''endTime'' (dict_get raw ''endTime'') = Inr e \<longrightarrow>
            normalise_segment strptime (raw(''status'' \<mapsto> v)) =
              Inl (ValidationError
                     (''Unsupported duty status '' @ [CHR 0x27] @ py_str v @ [CHR 0x27])))"
proof (intro conjI allI impI)
  show "upsert_driver_log strptime today user trip_id day log_date notes
           (before @ raw # rest) miles db =
         upsert_driver_log strptime today user trip_id day log_date notes
           (before @ raw(''status'' \<mapsto> PyStr STATUS_OFF_DUTY) # rest) miles db"
    unfolding upsert_driver_log_def upsert_driver_log_body_def
    by (simp only: normalise_segments_status_default [where raw = raw, OF absent])
next
  fix s e
  assume a: "parse_time strptime ''startTime'' (dict_get raw ''startTime'') = Inr s
              \<and> parse_time strptime ''endTime'' (dict_get raw ''endTime'') = Inr e
              \<and> s < e \<and> (int e - int s) mod 15 = 0"
  let ?seg = "\<lparr> si_status = PyStr STATUS_OFF_DUTY, si_start_time = s, si_end_time = e,
                 si_location = take 255 (or_empty (dict_get raw ''location'')),
                 si_activity = take 255 (or_empty (dict_get raw ''activity'')),
                 si_remarks = or_empty (dict_get raw ''remarks'') \<rparr>"
  have "validate ?seg = Inr ()"
    using a by (simp add: validate_def off_duty_valid duration_minutes_def Let_def
        FIFTEEN_MINUTES_def)
  then have "normalise_segment strptime raw = Inr ?seg"
    using a absent by (simp add: normalise_segment_def dict_get_default_def Let_def)
  moreover have "\<forall>totals. add_minutes (si_status ?seg) (duration_minutes ?seg) totals =
                     Inr (totals\<lparr> mt_off_duty := mt_off_duty totals + (int e - int s) \<rparr>)"
    by (simp add: add_minutes_def duration_minutes_def)
  ultimately show "\<exists>seg. normalise_segment strptime raw = Inr seg
               \<and> si_status seg = PyStr STATUS_OFF_DUTY
               \<and> si_start_time seg = s \<and> si_end_time seg = e
               \<and> (\<forall>totals. add_minutes (si_status seg) (duration_minutes seg) totals =
                     Inr (totals\<lparr> mt_off_duty := mt_off_duty totals + (int e - int s) \<rparr>))"
    by (intro exI [of _ ?seg]) simp
next
  fix detail
  show "normalise_segment strptime raw \<noteq>
          Inl (ValidationError (''Unsupported duty status '' @ detail))"
    using absent
    by (auto simp: normalise_segment_def dict_get_default_def Let_def parse_time_def
        validate_def off_duty_valid split: sum.splits pyval.splits option.splits if_splits)
next
  fix v s e
  assume a: "v \<notin> VALID_STATUSES
              \<and> parse_time strptime ''startTime'' (dict_get raw ''startTime'') = Inr s
              \<and> parse_time strptime ''endTime'' (dict_get raw ''endTime'') = Inr e"
  then show "normalise_segment strptime (raw(''status'' \<mapsto> v)) =
              Inl (ValidationError
                     (''Unsupported duty status '' @ [CHR 0x27] @ py_str v @ [CHR 0x27]))"
    by (simp add: normalise_segment_def dict_get_def dict_get_default_def Let_def validate_def)
qed


text \<open>
  A segment 08:00--10:00 without status: 120 off-duty minutes in the stored log;
  with the status \<^verbatim>\<open>RESTING\<close> it is rejected.
\<close>

theorem absent_status_is_off_duty_witness:
  "[''startTime'' \<mapsto> PyStr ''08:00'', ''endTime'' \<mapsto> PyStr ''10:00''] ''status'' = None
   \<and> upsert_driver_log strptime_hhmm 0 1 1 1 None None
        ([] @ [''startTime'' \<mapsto> PyStr ''08:00'', ''endTime'' \<mapsto> PyStr ''10:00''] # []) None
        (example_db [example_trip 1 1 ''PLANNED''] []) =
      upsert_driver_log strptime_hhmm 0 1 1 1 None None
        ([] @ [''startTime'' \<mapsto> PyStr ''08:00'', ''endTime'' \<mapsto> PyStr ''10:00'',
               ''status'' \<mapsto> PyStr STATUS_OFF_DUTY] # []) None
        (example_db [example_trip 1 1 ''PLANNED''] [])
   \<and> fst (upsert_driver_log strptime_hhmm 0 1 1 1 None None
        [[''startTime'' \<mapsto> PyStr ''08:00'', ''endTime'' \<mapsto> PyStr ''10:00'']] None
        (example_db [example_trip 1 1 ''PLANNED''] [])) =
      Inr \<lparr> dl_id = 1, dl_trip = 1, dl_day_number = 1, dl_log_date = 0,
            dl_total_off_duty_minutes = 120, dl_total_sleeper_minutes = 0,
            dl_total_driving_minutes = 0, dl_total_on_duty_minutes = 0,
            dl_total_distance_miles = 0, dl_notes = [] \<rparr>
   \<and> normalise_segment strptime_hhmm
        [''startTime'' \<mapsto> PyStr ''08:00'', ''endTime'' \<mapsto> PyStr ''10:00'',
         ''status'' \<mapsto> PyStr ''RESTING''] =
      Inl (ValidationError (''Unsupported duty status '' @ [CHR 0x27] @ ''RESTING'' @ [CHR 0x27]))"
proof -
  let ?raw = "[''startTime'' \<mapsto> PyStr ''08:00'', ''endTime'' \<mapsto> PyStr ''10:00'']"
  let ?db = "example_db [example_trip 1 1 ''PLANNED''] []"
  have absent: "?raw ''status'' = None"
    by simp
  note th = absent_status_is_off_duty [where raw = ?raw and strptime = strptime_hhmm, OF absent]
  have same: "upsert_driver_log strptime_hhmm 0 1 1 1 None None ([] @ ?raw # []) None ?db =
      upsert_driver_log strptime_hhmm 0 1 1 1 None None
        ([] @ ?raw(''status'' \<mapsto> PyStr STATUS_OFF_DUTY) # []) None ?db"
    using th [of 0 1 1 1 None None "[]" "[]" None ?db] by (rule conjunct1)
  have s: "parse_time strptime_hhmm ''startTime'' (dict_get ?raw ''startTime'') = Inr 480"
    and e: "parse_time strptime_hhmm ''endTime'' (dict_get ?raw ''endTime'') = Inr 600"
    by (simp_all add: parse_time_def dict_get_def digit_value_def)
  have unknown: "normalise_segment strptime_hhmm (?raw(''status'' \<mapsto> PyStr ''RESTING'')) =
      Inl (ValidationError (''Unsupported duty status '' @ [CHR 0x27] @ ''RESTING'' @ [CHR 0x27]))"
  proof -
    have "PyStr ''RESTING'' \<notin> VALID_STATUSES"
      by (simp add: VALID_STATUSES_def STATUS_OFF_DUTY_def STATUS_SLEEPER_def
          STATUS_DRIVING_def STATUS_ON_DUTY_def)
    then have "normalise_segment strptime_hhmm (?raw(''status'' \<mapsto> PyStr ''RESTING'')) =
      Inl (ValidationError (''Unsupported duty status '' @ [CHR 0x27] @
             py_str (PyStr ''RESTING'') @ [CHR 0x27]))"
      using th [of 0 1 1 1 None None "[]" "[]" None ?db] s e by blast
    then show ?thesis by (simp add: py_str_def)
  qed
  have counted: "fst (upsert_driver_log strptime_hhmm 0 1 1 1 None None [?raw] None ?db) =
      Inr \<lparr> dl_id = 1, dl_trip = 1, dl_day_number = 1, dl_log_date = 0,
            dl_total_off_duty_minutes = 120, dl_total_sleeper_minutes = 0,
            dl_total_driving_minutes = 0, dl_total_on_duty_minutes = 0,
            dl_total_distance_miles = 0, dl_notes = [] \<rparr>"
    by (simp add: upsert_example_simps get_or_create_log_def fresh_id_def save_log_def)
  show ?thesis
    using absent same counted unknown by (intro conjI)
qed

section \<open>The trip pipeline\<close>

lemma atomic_error: "body db = (Inl e, db') \<Longrightarrow> atomic body db = (Inl e, db)"
  by (simp add: atomic_def)

text \<open>
  When the routing call raises, the body of the transaction has already created the
  trip row; the exception leaves the block as \<open>TripPlanningError\<close> if it was a
  \<open>RoutePlannerError\<close> and unchanged otherwise.
\<close>

lemma plan_trip_body_route_error:
  assumes "rq_start_location request = Some start_loc"
    and "rq_pickup_location request = Some pickup_loc"
    and "rq_dropoff_location request = Some dropoff_loc"
    and "plan_route [start_loc, pickup_loc, dropoff_loc] = Inl e"
  shows "\<exists>db1. plan_trip_body plan_route u request db =
           (Inl (case e of RoutePlannerError msg \<Rightarrow> TripPlanningError msg | _ \<Rightarrow> e), db1)
         \<and> length (db_trips db1) = Suc (length (db_trips db))"
  using assms by (cases e) (simp_all add: plan_trip_body_def Let_def)

text \<open>
  Claim C3. When \<^verbatim>\<open>plan_trip_for_user\<close> reaches the routing call (a user and the three
  locations are given) and the collaborator fails with its error
  \<open>RoutePlannerError msg\<close>, the caller gets \<open>TripPlanningError msg\<close> and the database is
  the one before the call: no trip, route or stop is persisted.
\<close>

theorem routing_failure_rolls_back:
  assumes user: "user = Some u"
    and locations: "rq_start_location request = Some start_loc"
      "rq_pickup_location request = Some pickup_loc"
      "rq_dropoff_location request = Some dropoff_loc"
    and failure: "plan_route [start_loc, pickup_loc, dropoff_loc] = Inl (RoutePlannerError msg)"
  shows "plan_trip_for_user plan_route user request db = (Inl (TripPlanningError msg), db)"
proof -
  obtain db1 where "plan_trip_body plan_route u request db = (Inl (TripPlanningError msg), db1)"
    using plan_trip_body_route_error [where plan_route = plan_route, OF locations failure]
    by auto
  then have "atomic (plan_trip_body plan_route u request) db = (Inl (TripPlanningError msg), db)"
    by (rule atomic_error)
  then show ?thesis
    by (simp add: plan_trip_for_user_def user)
qed


text \<open>The failing collaborator on a database that already holds a trip.\<close>

theorem routing_failure_rolls_back_witness:
  "rq_start_location example_request = Some example_location
   \<and> rq_pickup_location example_request = Some example_location
   \<and> rq_dropoff_location example_request = Some example_location
   \<and> failing_route [example_location, example_location, example_location] =
       Inl (RoutePlannerError ''OpenRouteService returned no routes for the given coordinates.'')
   \<and> plan_trip_for_user failing_route (Some 1) example_request
       (example_db [example_trip 1 1 ''PLANNED''] []) =
     (Inl (TripPlanningError ''OpenRouteService returned no routes for the given coordinates.''),
      example_db [example_trip 1 1 ''PLANNED''] [])"
proof -
  have locations: "rq_start_location example_request = Some example_location"
    "rq_pickup_location example_request = Some example_location"
    "rq_dropoff_location example_request = Some example_location"
    by (simp_all add: example_request_def)
  have failure: "failing_route [example_location, example_location, example_location] =
       Inl (RoutePlannerError ''OpenRouteService returned no routes for the given coordinates.'')"
    by (simp add: failing_route_def)
  show ?thesis
    using routing_failure_rolls_back [where plan_route = failing_route and user = "Some 1",
        OF refl locations failure] locations failure
    by simp
qed

text \<open>
  Whatever exception leaves \<^verbatim>\<open>plan_trip_for_user\<close>, the database is unchanged.
\<close>

lemma plan_trip_failure_keeps_database:
  assumes "fst (plan_trip_for_user plan_route user request db) = Inl e"
  shows "snd (plan_trip_for_user plan_route user request db) = db"
proof (cases user)
  case None
  then show ?thesis by (simp add: plan_trip_for_user_def)
next
  case (Some u)
  obtain r db' where body: "plan_trip_body plan_route u request db = (r, db')"
    by (cases "plan_trip_body plan_route u request db")
  show ?thesis
    using assms by (cases r) (simp_all add: plan_trip_for_user_def Some atomic_def body)
qed

subsection \<open>Background jobs\<close>

text \<open>Planning a trip does not touch the table of jobs.\<close>

lemma atomic_jobs:
  assumes "\<And>r db'. body db = (r, db') \<Longrightarrow> db_jobs db' = db_jobs db"
  shows "db_jobs (snd (atomic body db)) = db_jobs db"
proof (cases "body db")
  case (Pair r db')
  then show ?thesis
    using assms [OF Pair] by (cases r) (simp_all add: atomic_def)
qed

lemma plan_trip_body_jobs:
  "plan_trip_body plan_route u request db = (r, db') \<Longrightarrow> db_jobs db' = db_jobs db"
  by (auto simp: plan_trip_body_def Let_def save_trip_def
      split: option.splits sum.splits exn.splits prod.splits)

lemma plan_trip_for_user_jobs:
  "db_jobs (snd (plan_trip_for_user plan_route user request db)) = db_jobs db"
  by (cases user) (simp_all add: plan_trip_for_user_def atomic_jobs plan_trip_body_jobs)

lemma run_trip_job_jobs:
  "db_jobs (snd (run_trip_job plan_route job db)) = db_jobs db"
  by (cases "j_user job") (simp_all add: run_trip_job_def Let_def plan_trip_for_user_jobs)


text \<open>
  One pass of the loop: whatever \<^verbatim>\<open>_run_trip_job\<close> does, the job ends as \<open>SUCCESS\<close> or
  \<open>FAILED\<close>, the rows with its key carry that status, no other row changes its status,
  and the loop goes on with the remaining jobs.
\<close>

lemma process_jobs_step:
  "\<exists>job2 db3.
     process_jobs plan_route (job # rest) processed db =
       process_jobs plan_route rest (processed @ [job2]) db3
   \<and> j_id job2 = j_id job
   \<and> (j_status job2 = STATUS_SUCCESS \<or> j_status job2 = STATUS_FAILED)
   \<and> list_all2
         (\<lambda>r r'. j_id r' = j_id r \<and>
            (if j_id r = j_id job
             then j_status r' = STATUS_SUCCESS \<or> j_status r' = STATUS_FAILED
             else j_status r' = j_status r))
         (db_jobs db) (db_jobs db3)"
proof -
  obtain job1 db1 where running: "mark_running job db = (job1, db1)"
    by (cases "mark_running job db")
  then have job1: "j_id job1 = j_id job"
    and db1: "db_jobs db1 =
      map (\<lambda>row. if j_id row = j_id job then row\<lparr> j_status := STATUS_RUNNING \<rparr> else row)
        (db_jobs db)"
    by (auto simp: mark_running_def)
  obtain res db2 where run: "run_trip_job plan_route job1 db1 = (res, db2)"
    by (cases "run_trip_job plan_route job1 db1")
  have db2: "db_jobs db2 = db_jobs db1"
    using run_trip_job_jobs [of plan_route job1 db1] run by simp
  have rows: "list_all2
         (\<lambda>r r'. j_id r' = j_id r \<and>
            (if j_id r = j_id job
             then j_status r' = STATUS_SUCCESS \<or> j_status r' = STATUS_FAILED
             else j_status r' = j_status r))
         (db_jobs db) (db_jobs db3)"
    if "mark_success job1 result db2 = (job2, db3) \<or> mark_failed job1 message db2 = (job2, db3)"
    for result message job2 db3
    using that
    by (auto simp: mark_success_def mark_failed_def db2 db1 job1 list_all2_map2 list_all2_same)
  have finished: "j_id job2 = j_id job \<and> (j_status job2 = STATUS_SUCCESS \<or> j_status job2 = STATUS_FAILED)"
    if "mark_success job1 result db2 = (job2, db3) \<or> mark_failed job1 message db2 = (job2, db3)"
    for result message job2 db3
    using that by (auto simp: mark_success_def mark_failed_def job1)
  show ?thesis
  proof (cases res)
    case (Inr trip)
    obtain job2 db3 where m: "mark_success job1 [(''trip_id'', t_id trip)] db2 = (job2, db3)"
      by (cases "mark_success job1 [(''trip_id'', t_id trip)] db2")
    have "process_jobs plan_route (job # rest) processed db =
            process_jobs plan_route rest (processed @ [job2]) db3"
      by (simp add: running run Inr m)
    then show ?thesis
      using rows [of _ job2 db3] finished [of _ job2 db3] m by blast
  next
    case (Inl e)
    define message where
      "message = (case e of TripPlanningError m \<Rightarrow> m | _ \<Rightarrow> str_exn e)"
    obtain job2 db3 where m: "mark_failed job1 message db2 = (job2, db3)"
      by (cases "mark_failed job1 message db2")
    have "process_jobs plan_route (job # rest) processed db =
            process_jobs plan_route rest (processed @ [job2]) db3"
      using m by (cases e) (simp_all add: running run Inl message_def)
    then show ?thesis
      using rows [of _ job2 db3] finished [of _ job2 db3] m by blast
  qed
qed

text \<open>The whole loop, by induction on the selected jobs.\<close>

lemma process_jobs_all:
  "\<exists>processed' db'.
     process_jobs plan_route pending processed db = (processed', db')
   \<and> map j_id processed' = map j_id processed @ map j_id pending
   \<and> ((\<forall>j \<in> set processed. j_status j = STATUS_SUCCESS \<or> j_status j = STATUS_FAILED) \<longrightarrow>
       (\<forall>j \<in> set processed'. j_status j = STATUS_SUCCESS \<or> j_status j = STATUS_FAILED))
   \<and> list_all2
         (\<lambda>r r'. j_id r' = j_id r \<and>
            (if j_id r \<in> j_id ` set pending
             then j_status r' = STATUS_SUCCESS \<or> j_status r' = STATUS_FAILED
             else j_status r' = j_status r))
         (db_jobs db) (db_jobs db')"
proof (induction pending arbitrary: processed db)
  case Nil
  show ?case
    by (simp add: list_all2_same)
next
  case (Cons job rest)
  obtain job2 db3 where
    step: "process_jobs plan_route (job # rest) processed db =
             process_jobs plan_route rest (processed @ [job2]) db3"
    and job2: "j_id job2 = j_id job"
      "j_status job2 = STATUS_SUCCESS \<or> j_status job2 = STATUS_FAILED"
    and rows1: "list_all2
         (\<lambda>r r'. j_id r' = j_id r \<and>
            (if j_id r = j_id job
             then j_status r' = STATUS_SUCCESS \<or> j_status r' = STATUS_FAILED
             else j_status r' = j_status r))
         (db_jobs db) (db_jobs db3)"
    using process_jobs_step [of plan_route job rest processed db] by blast
  obtain processed' db' where
    rest: "process_jobs plan_route rest (processed @ [job2]) db3 = (processed', db')"
    and ids: "map j_id processed' = map j_id (processed @ [job2]) @ map j_id rest"
    and fin: "(\<forall>j \<in> set (processed @ [job2]). j_status j = STATUS_SUCCESS \<or> j_status j = STATUS_FAILED) \<longrightarrow>
       (\<forall>j \<in> set processed'. j_status j = STATUS_SUCCESS \<or> j_status j = STATUS_FAILED)"
    and rows2: "list_all2
         (\<lambda>r r'. j_id r' = j_id r \<and>
            (if j_id r \<in> j_id ` set rest
             then j_status r' = STATUS_SUCCESS \<or> j_status r' = STATUS_FAILED
             else j_status r' = j_status r))
         (db_jobs db3) (db_jobs db')"
    using Cons.IH [of "processed @ [job2]" db3] by blast
  have rows: "list_all2
         (\<lambda>r r'. j_id r' = j_id r \<and>
            (if j_id r \<in> j_id ` set (job # rest)
             then j_status r' = STATUS_SUCCESS \<or> j_status r' = STATUS_FAILED
             else j_status r' = j_status r))
         (db_jobs db) (db_jobs db')"
    using rows1 rows2
    by (rule list_all2_trans [rotated]) (auto split: if_splits)
  show ?case
    using step rest ids fin job2 rows by auto
qed


text \<open>
  The selection holds at most \<open>limit\<close> jobs, in ascending order of creation time, all
  of them pending jobs of the type \<open>PLAN_TRIP\<close>.
\<close>

lemma select_pending_jobs_order:
  "length (select_pending_jobs limit db) \<le> nat limit
   \<and> sorted (map j_created_at (select_pending_jobs limit db))
   \<and> set (select_pending_jobs limit db) \<subseteq>
       {j \<in> set (db_jobs db). j_job_type j = JOB_TYPE_PLAN_TRIP \<and> j_status j = STATUS_PENDING}"
proof -
  let ?pending = "filter (\<lambda>j. j_job_type j = JOB_TYPE_PLAN_TRIP \<and> j_status j = STATUS_PENDING)
                    (db_jobs db)"
  have "sorted (take (nat limit) (map j_created_at (sort_key j_created_at ?pending)))"
    by (intro sorted_wrt_take) simp
  then have "sorted (map j_created_at (select_pending_jobs limit db))"
    by (simp add: select_pending_jobs_def take_map)
  moreover have "set (select_pending_jobs limit db) \<subseteq> set ?pending"
    unfolding select_pending_jobs_def using set_take_subset [of "nat limit"] by fastforce
  ultimately show ?thesis
    by (auto simp: select_pending_jobs_def)
qed

text \<open>
  Claim C6. For a limit that is not negative, \<^verbatim>\<open>process_pending_trip_jobs\<close> returns; it
  returns exactly the selected jobs, in their order, each with status \<open>SUCCESS\<close> or
  \<open>FAILED\<close>, also when earlier jobs of the batch failed; the table keeps its rows, and
  every row of a selected job ends as \<open>SUCCESS\<close> or \<open>FAILED\<close>, never \<open>PENDING\<close> or
  \<open>RUNNING\<close>.
\<close>

theorem pending_jobs_all_finish:
  assumes "0 \<le> limit"
  shows "\<exists>processed db'.
     process_pending_trip_jobs plan_route limit db = (Inr processed, db')
   \<and> map j_id processed = map j_id (select_pending_jobs limit db)
   \<and> (\<forall>j \<in> set processed. j_status j = STATUS_SUCCESS \<or> j_status j = STATUS_FAILED)
   \<and> map j_id (db_jobs db') = map j_id (db_jobs db)
   \<and> (\<forall>row \<in> set (db_jobs db').
         j_id row \<in> j_id ` set (select_pending_jobs limit db) \<longrightarrow>
           (j_status row = STATUS_SUCCESS \<or> j_status row = STATUS_FAILED)
         \<and> j_status row \<noteq> STATUS_PENDING \<and> j_status row \<noteq> STATUS_RUNNING)"
proof -
  let ?pending = "select_pending_jobs limit db"
  obtain processed db' where
    run: "process_jobs plan_route ?pending [] db = (processed, db')"
    and ids: "map j_id processed = map j_id ([]::BackgroundJob list) @ map j_id ?pending"
    and fin: "(\<forall>j \<in> set ([]::BackgroundJob list).
                 j_status j = STATUS_SUCCESS \<or> j_status j = STATUS_FAILED) \<longrightarrow>
       (\<forall>j \<in> set processed. j_status j = STATUS_SUCCESS \<or> j_status j = STATUS_FAILED)"
    and rows: "list_all2
         (\<lambda>r r'. j_id r' = j_id r \<and>
            (if j_id r \<in> j_id ` set ?pending
             then j_status r' = STATUS_SUCCESS \<or> j_status r' = STATUS_FAILED
             else j_status r' = j_status r))
         (db_jobs db) (db_jobs db')"
    using process_jobs_all [of plan_route ?pending "[]" db] by blast
  have result: "process_pending_trip_jobs plan_route limit db = (Inr processed, db')"
    using assms run by (simp add: process_pending_trip_jobs_def)
  have len: "length (db_jobs db') = length (db_jobs db)"
    using rows by (simp add: list_all2_lengthD)
  have same_ids: "map j_id (db_jobs db') = map j_id (db_jobs db)"
    using rows by (auto simp: list_all2_conv_all_nth intro: nth_equalityI)
  have terminal: "j_status row = STATUS_SUCCESS \<or> j_status row = STATUS_FAILED"
    if mem: "row \<in> set (db_jobs db')" and sel: "j_id row \<in> j_id ` set ?pending" for row
  proof -
    obtain i where i: "i < length (db_jobs db')" "db_jobs db' ! i = row"
      using mem unfolding in_set_conv_nth by blast
    then have "j_id row = j_id (db_jobs db ! i)"
      "if j_id (db_jobs db ! i) \<in> j_id ` set ?pending
       then j_status row = STATUS_SUCCESS \<or> j_status row = STATUS_FAILED
       else j_status row = j_status (db_jobs db ! i)"
      using rows len by (auto simp: list_all2_conv_all_nth)
    then show ?thesis
      using sel by (simp split: if_splits)
  qed
  have distinct_names: "STATUS_SUCCESS \<noteq> STATUS_PENDING" "STATUS_SUCCESS \<noteq> STATUS_RUNNING"
    "STATUS_FAILED \<noteq> STATUS_PENDING" "STATUS_FAILED \<noteq> STATUS_RUNNING"
    by (simp_all add: STATUS_SUCCESS_def STATUS_FAILED_def STATUS_PENDING_def STATUS_RUNNING_def)
  have "\<forall>row \<in> set (db_jobs db').
         j_id row \<in> j_id ` set ?pending \<longrightarrow>
           (j_status row = STATUS_SUCCESS \<or> j_status row = STATUS_FAILED)
         \<and> j_status row \<noteq> STATUS_PENDING \<and> j_status row \<noteq> STATUS_RUNNING"
  proof (intro ballI impI)
    fix row
    assume row: "row \<in> set (db_jobs db')" "j_id row \<in> j_id ` set ?pending"
    from terminal [OF row] distinct_names
    show "(j_status row = STATUS_SUCCESS \<or> j_status row = STATUS_FAILED)
         \<and> j_status row \<noteq> STATUS_PENDING \<and> j_status row \<noteq> STATUS_RUNNING"
      by auto
  qed
  moreover have "\<forall>j \<in> set processed. j_status j = STATUS_SUCCESS \<or> j_status j = STATUS_FAILED"
    using fin by simp
  ultimately show ?thesis
    using result ids same_ids by auto
qed

text \<open>
  A batch of two pending jobs and one finished job: the first pending job has lost
  its user and fails, and the second is still planned and succeeds.
\<close>

lemmas job_example_simps = process_pending_trip_jobs_def select_pending_jobs_def
  example_db_def example_job_def example_payload_def example_location_def
  JOB_TYPE_PLAN_TRIP_def STATUS_PENDING_def STATUS_RUNNING_def STATUS_SUCCESS_def STATUS_FAILED_def
  mark_running_def mark_success_def mark_failed_def run_trip_job_def plan_trip_for_user_def
  atomic_def plan_trip_body_def working_route_def Let_def fresh_id_def or_nil_def
  build_stop_definitions_def save_trip_def

lemma jobs_example:
  "map (\<lambda>j. (j_id j, j_status j, j_result j, j_error_message j))
     (db_jobs (snd (process_pending_trip_jobs working_route 10
        ((example_db [] [])\<lparr> db_jobs :=
            [example_job 1 None STATUS_PENDING 10,
             example_job 2 (Some 1) STATUS_PENDING 20,
             example_job 3 (Some 1) STATUS_SUCCESS 5] \<rparr>)))) =
   [(1, ''FAILED'', [], ''Associated user no longer exists for this job.''),
    (2, ''SUCCESS'', [(''trip_id'', 1)], []),
    (3, ''SUCCESS'', [], [])]"
  by (simp add: job_example_simps)


theorem pending_jobs_all_finish_witness:
  "(0::int) \<le> 10
   \<and> map j_id (select_pending_jobs 10
        ((example_db [] [])\<lparr> db_jobs :=
            [example_job 1 None STATUS_PENDING 10,
             example_job 2 (Some 1) STATUS_PENDING 20,
             example_job 3 (Some 1) STATUS_SUCCESS 5] \<rparr>)) = [1, 2]
   \<and> map j_id
        (db_jobs (snd (process_pending_trip_jobs working_route 10
          ((example_db [] [])\<lparr> db_jobs :=
            [example_job 1 None STATUS_PENDING 10,
             example_job 2 (Some 1) STATUS_PENDING 20,
             example_job 3 (Some 1) STATUS_SUCCESS 5] \<rparr>)))) = [1, 2, 3]
   \<and> map (\<lambda>j. (j_id j, j_status j, j_result j, j_error_message j))
        (db_jobs (snd (process_pending_trip_jobs working_route 10
          ((example_db [] [])\<lparr> db_jobs :=
            [example_job 1 None STATUS_PENDING 10,
             example_job 2 (Some 1) STATUS_PENDING 20,
             example_job 3 (Some 1) STATUS_SUCCESS 5] \<rparr>)))) =
      [(1, ''FAILED'', [], ''Associated user no longer exists for this job.''),
       (2, ''SUCCESS'', [(''trip_id'', 1)], []),
       (3, ''SUCCESS'', [], [])]"
proof -
  let ?db = "(example_db [] [])\<lparr> db_jobs :=
            [example_job 1 None STATUS_PENDING 10,
             example_job 2 (Some 1) STATUS_PENDING 20,
             example_job 3 (Some 1) STATUS_SUCCESS 5] \<rparr>"
  have limit: "(0::int) \<le> 10"
    by simp
  obtain processed db' where
    run: "process_pending_trip_jobs working_route 10 ?db = (Inr processed, db')"
    and ids: "map j_id (db_jobs db') = map j_id (db_jobs ?db)"
    using pending_jobs_all_finish [OF limit, of working_route ?db] by blast
  have "map j_id (db_jobs (snd (process_pending_trip_jobs working_route 10 ?db))) =
          map j_id (db_jobs ?db)"
    using run ids by simp
  then have kept: "map j_id (db_jobs (snd (process_pending_trip_jobs working_route 10 ?db))) =
          [1, 2, 3]"
    by (simp add: example_db_def example_job_def)
  have selected: "map j_id (select_pending_jobs 10 ?db) = [1, 2]"
    by (simp add: job_example_simps)
  show ?thesis
    using limit selected kept jobs_example by (intro conjI)
qed

section \<open>The status mutation\<close>

lemma find_own_trip:
  "find (\<lambda>t. t_id t = trip_id \<and> t_user t = user) trips = Some trip \<Longrightarrow>
   trip \<in> set trips \<and> t_id trip = trip_id \<and> t_user trip = user"
  by (auto simp: find_Some_iff)

lemma same_key_same_row:
  "distinct (map t_id trips) \<Longrightarrow> a \<in> set trips \<Longrightarrow> b \<in> set trips \<Longrightarrow>
   t_id a = t_id b \<Longrightarrow> a = b"
  by (auto simp: distinct_map inj_on_def)

text \<open>
  The mutation on a trip of the caller with a valid new status: the three refusals
  in the order of the code, and the update.
\<close>

lemma update_trip_status_cases:
  assumes found: "find (\<lambda>t. t_id t = trip_id \<and> t_user t = user) (db_trips db) = Some trip"
    and norm: "py_upper (py_strip (or_nil status)) = new_status"
    and valid: "new_status \<in> {TRIP_STATUS_PLANNED, TRIP_STATUS_IN_PROGRESS,
                              TRIP_STATUS_COMPLETED, TRIP_STATUS_CANCELLED}"
  shows "update_trip_status user trip_id status db =
     (if new_status = TRIP_STATUS_IN_PROGRESS
          \<and> (\<exists>other \<in> set (db_trips db). t_user other = user
                \<and> t_status other = TRIP_STATUS_IN_PROGRESS \<and> t_id other \<noteq> t_id trip)
      then (\<lparr> uts_success = False, uts_trip = None,
              uts_errors = [''Another trip is already in progress''] \<rparr>, db)
      else if t_status trip = TRIP_STATUS_IN_PROGRESS
              \<and> new_status \<notin> {TRIP_STATUS_IN_PROGRESS, TRIP_STATUS_COMPLETED}
      then (\<lparr> uts_success = False, uts_trip = None,
              uts_errors = [''Routes already in progress can only be marked as completed.''] \<rparr>,
            db)
      else if t_status trip \<noteq> TRIP_STATUS_PLANNED \<and> new_status = TRIP_STATUS_PLANNED
      then (\<lparr> uts_success = False, uts_trip = None,
              uts_errors = [''Only routes still in planning can be marked as planned.''] \<rparr>, db)
      else (\<lparr> uts_success = True, uts_trip = Some (trip\<lparr> t_status := new_status \<rparr>),
              uts_errors = [] \<rparr>,
            save_trip_status (trip\<lparr> t_status := new_status \<rparr>) db))"
proof -
  have active: "filter (\<lambda>t. t_user t = user \<and> t_status t = TRIP_STATUS_IN_PROGRESS
                              \<and> t_id t \<noteq> t_id trip) (db_trips db) \<noteq> [] \<longleftrightarrow>
        (\<exists>other \<in> set (db_trips db). t_user other = user
                \<and> t_status other = TRIP_STATUS_IN_PROGRESS \<and> t_id other \<noteq> t_id trip)"
    by (auto simp: filter_empty_conv)
  have v: "\<not> new_status \<notin> {TRIP_STATUS_PLANNED, TRIP_STATUS_IN_PROGRESS,
                              TRIP_STATUS_COMPLETED, TRIP_STATUS_CANCELLED}"
    using valid by simp
  show ?thesis
    unfolding update_trip_status_def found option.case Let_def norm active
    by (simp only: v if_False)
qed


text \<open>
  The mutation either leaves the database as it is or writes the new status of the
  caller's trip, and it writes \<open>IN_PROGRESS\<close> only when no other trip of the caller is
  in progress.
\<close>

lemma update_trip_status_effect:
  "snd (update_trip_status user trip_id status db) = db
   \<or> (\<exists>trip new_status.
        find (\<lambda>t. t_id t = trip_id \<and> t_user t = user) (db_trips db) = Some trip
      \<and> snd (update_trip_status user trip_id status db) =
          save_trip_status (trip\<lparr> t_status := new_status \<rparr>) db
      \<and> (new_status = TRIP_STATUS_IN_PROGRESS \<longrightarrow>
           \<not> (\<exists>other \<in> set (db_trips db). t_user other = user
                \<and> t_status other = TRIP_STATUS_IN_PROGRESS \<and> t_id other \<noteq> t_id trip)))"
proof (cases "find (\<lambda>t. t_id t = trip_id \<and> t_user t = user) (db_trips db)")
  case None
  then show ?thesis by (simp add: update_trip_status_def)
next
  case (Some trip)
  define new_status where "new_status = py_upper (py_strip (or_nil status))"
  show ?thesis
  proof (cases "new_status \<in> {TRIP_STATUS_PLANNED, TRIP_STATUS_IN_PROGRESS,
                                TRIP_STATUS_COMPLETED, TRIP_STATUS_CANCELLED}")
    case False
    then have "snd (update_trip_status user trip_id status db) = db"
      unfolding update_trip_status_def Some option.case Let_def new_status_def [symmetric]
      by (simp only: if_True snd_conv not_False_eq_True)
    then show ?thesis ..
  next
    case True
    define c1 where "c1 \<longleftrightarrow> new_status = TRIP_STATUS_IN_PROGRESS
          \<and> (\<exists>other \<in> set (db_trips db). t_user other = user
                \<and> t_status other = TRIP_STATUS_IN_PROGRESS \<and> t_id other \<noteq> t_id trip)"
    define c2 where "c2 \<longleftrightarrow> t_status trip = TRIP_STATUS_IN_PROGRESS
              \<and> new_status \<notin> {TRIP_STATUS_IN_PROGRESS, TRIP_STATUS_COMPLETED}"
    define c3 where "c3 \<longleftrightarrow> t_status trip \<noteq> TRIP_STATUS_PLANNED
              \<and> new_status = TRIP_STATUS_PLANNED"
    have "snd (update_trip_status user trip_id status db) =
            (if c1 \<or> c2 \<or> c3 then db
             else save_trip_status (trip\<lparr> t_status := new_status \<rparr>) db)"
      unfolding update_trip_status_cases [OF Some new_status_def [symmetric] True]
        c1_def [symmetric] c2_def [symmetric] c3_def [symmetric]
      by simp
    then consider "snd (update_trip_status user trip_id status db) = db"
      | "snd (update_trip_status user trip_id status db) =
            save_trip_status (trip\<lparr> t_status := new_status \<rparr>) db" "\<not> c1"
      by (cases "c1 \<or> c2 \<or> c3") auto
    then show ?thesis
    proof cases
      case 1
      then show ?thesis ..
    next
      case 2
      have "new_status = TRIP_STATUS_IN_PROGRESS \<longrightarrow>
           \<not> (\<exists>other \<in> set (db_trips db). t_user other = user
                \<and> t_status other = TRIP_STATUS_IN_PROGRESS \<and> t_id other \<noteq> t_id trip)"
        using 2(2) unfolding c1_def by blast
      then show ?thesis
        using Some 2(1) by blast
    qed
  qed
qed

text \<open>Such a write keeps the constraint of the table.\<close>

lemma save_trip_status_keeps_constraint:
  assumes inv: "unique_active_trip_per_user db"
    and trip: "trip \<in> set (db_trips db)"
    and free: "new_status = TRIP_STATUS_IN_PROGRESS \<longrightarrow>
           \<not> (\<exists>other \<in> set (db_trips db). t_user other = t_user trip
                \<and> t_status other = TRIP_STATUS_IN_PROGRESS \<and> t_id other \<noteq> t_id trip)"
  shows "unique_active_trip_per_user (save_trip_status (trip\<lparr> t_status := new_status \<rparr>) db)"
proof -
  let ?upd = "\<lambda>row. if t_id row = t_id trip then row\<lparr> t_status := new_status \<rparr> else row"
  have keys: "distinct (map t_id (db_trips db))"
    and one: "\<And>a b. a \<in> set (db_trips db) \<Longrightarrow> b \<in> set (db_trips db) \<Longrightarrow>
       t_status a = TRIP_STATUS_IN_PROGRESS \<Longrightarrow> t_status b = TRIP_STATUS_IN_PROGRESS \<Longrightarrow>
       t_user a = t_user b \<Longrightarrow> t_id a = t_id b"
    using inv unfolding unique_active_trip_per_user_def by blast+
  have rows: "db_trips (save_trip_status (trip\<lparr> t_status := new_status \<rparr>) db) =
                map ?upd (db_trips db)"
    by (simp add: save_trip_status_def)
  have "map t_id (map ?upd rows) = map t_id rows" for rows :: "Trip list"
    by (induction rows) simp_all
  then have ids: "map t_id (map ?upd (db_trips db)) = map t_id (db_trips db)" .
  have same: "a = trip" if "a \<in> set (db_trips db)" "t_id a = t_id trip" for a
    using same_key_same_row [OF keys that(1) trip that(2)] .
  have pair: "t_id (?upd a) = t_id (?upd b)"
    if a: "a \<in> set (db_trips db)" and b: "b \<in> set (db_trips db)"
      and sa: "t_status (?upd a) = TRIP_STATUS_IN_PROGRESS"
      and sb: "t_status (?upd b) = TRIP_STATUS_IN_PROGRESS"
      and u: "t_user (?upd a) = t_user (?upd b)" for a b
  proof (cases "t_id a = t_id trip")
    case True
    note a_key = True
    show ?thesis
    proof (cases "t_id b = t_id trip")
      case True
      then show ?thesis using a_key by simp
    next
      case False
      then have "t_status b = TRIP_STATUS_IN_PROGRESS" "t_user b = t_user trip"
        using sb u a_key same [OF a a_key] by auto
      moreover have "new_status = TRIP_STATUS_IN_PROGRESS"
        using sa a_key by simp
      ultimately show ?thesis
        using free b False by blast
    qed
  next
    case False
    note a_key = False
    show ?thesis
    proof (cases "t_id b = t_id trip")
      case True
      then have "t_status a = TRIP_STATUS_IN_PROGRESS" "t_user a = t_user trip"
        using sa u a_key same [OF b True] by auto
      moreover have "new_status = TRIP_STATUS_IN_PROGRESS"
        using sb True by simp
      ultimately show ?thesis
        using free a a_key by blast
    next
      case False
      then show ?thesis
        using one [OF a b] sa sb u a_key by simp
    qed
  qed
  have "\<forall>a' \<in> set (map ?upd (db_trips db)). \<forall>b' \<in> set (map ?upd (db_trips db)).
          t_status a' = TRIP_STATUS_IN_PROGRESS \<and> t_status b' = TRIP_STATUS_IN_PROGRESS
          \<and> t_user a' = t_user b' \<longrightarrow> t_id a' = t_id b'"
  proof (intro ballI impI)
    fix a' b'
    assume "a' \<in> set (map ?upd (db_trips db))" "b' \<in> set (map ?upd (db_trips db))"
    then obtain a b where ab: "a \<in> set (db_trips db)" "a' = ?upd a"
      "b \<in> set (db_trips db)" "b' = ?upd b"
      unfolding set_map by blast
    assume "t_status a' = TRIP_STATUS_IN_PROGRESS \<and> t_status b' = TRIP_STATUS_IN_PROGRESS
          \<and> t_user a' = t_user b'"
    then show "t_id a' = t_id b'"
      unfolding ab(2,4) using pair [OF ab(1,3)] by blast
  qed
  then show ?thesis
    unfolding unique_active_trip_per_user_def rows ids
    using keys by blast
qed

text \<open>
  Claim C7. Setting a trip of the caller to \<open>IN_PROGRESS\<close> while another trip of the same
  user is \<open>IN_PROGRESS\<close> fails with ``Another trip is already in progress'' and changes
  nothing; and every status update, whatever its arguments, takes a database with at
  most one \<open>IN_PROGRESS\<close> trip per user to a database with at most one.
\<close>

theorem second_active_trip_refused:
  "(find (\<lambda>t. t_id t = trip_id \<and> t_user t = user) (db_trips db) = Some trip
      \<and> py_upper (py_strip (or_nil status)) = TRIP_STATUS_IN_PROGRESS
      \<and> (\<exists>other \<in> set (db_trips db). t_user other = user
            \<and> t_status other = TRIP_STATUS_IN_PROGRESS \<and> t_id other \<noteq> t_id trip)
    \<longrightarrow> update_trip_status user trip_id status db =
          (\<lparr> uts_success = False, uts_trip = None,
             uts_errors = [''Another trip is already in progress''] \<rparr>, db))
   \<and> (unique_active_trip_per_user db \<longrightarrow>
        unique_active_trip_per_user (snd (update_trip_status user trip_id status db)))"
proof (intro conjI impI)
  assume a: "find (\<lambda>t. t_id t = trip_id \<and> t_user t = user) (db_trips db) = Some trip
      \<and> py_upper (py_strip (or_nil status)) = TRIP_STATUS_IN_PROGRESS
      \<and> (\<exists>other \<in> set (db_trips db). t_user other = user
            \<and> t_status other = TRIP_STATUS_IN_PROGRESS \<and> t_id other \<noteq> t_id trip)"
  then have found: "find (\<lambda>t. t_id t = trip_id \<and> t_user t = user) (db_trips db) = Some trip"
    and norm: "py_upper (py_strip (or_nil status)) = TRIP_STATUS_IN_PROGRESS"
    by simp_all
  show "update_trip_status user trip_id status db =
          (\<lparr> uts_success = False, uts_trip = None,
             uts_errors = [''Another trip is already in progress''] \<rparr>, db)"
    using update_trip_status_cases [OF found norm] a by simp
next
  assume inv: "unique_active_trip_per_user db"
  from update_trip_status_effect [of user trip_id status db]
  show "unique_active_trip_per_user (snd (update_trip_status user trip_id status db))"
  proof (elim disjE exE conjE)
    assume "snd (update_trip_status user trip_id status db) = db"
    then show ?thesis using inv by simp
  next
    fix trip new_status
    assume found: "find (\<lambda>t. t_id t = trip_id \<and> t_user t = user) (db_trips db) = Some trip"
      and eff: "snd (update_trip_status user trip_id status db) =
          save_trip_status (trip\<lparr> t_status := new_status \<rparr>) db"
      and free: "new_status = TRIP_STATUS_IN_PROGRESS \<longrightarrow>
           \<not> (\<exists>other \<in> set (db_trips db). t_user other = user
                \<and> t_status other = TRIP_STATUS_IN_PROGRESS \<and> t_id other \<noteq> t_id trip)"
    have own: "trip \<in> set (db_trips db)" "t_user trip = user"
      using find_own_trip [OF found] by simp_all
    show ?thesis
      unfolding eff
      using save_trip_status_keeps_constraint [OF inv own(1)] free own(2) by simp
  qed
qed


text \<open>Unfolding for running the mutation on example tables.\<close>

lemmas status_example_simps = example_db_def example_trip_def
  py_upper_def py_strip_def is_space_def upper_char_def or_nil_def
  TRIP_STATUS_PLANNED_def TRIP_STATUS_IN_PROGRESS_def TRIP_STATUS_COMPLETED_def
  TRIP_STATUS_CANCELLED_def

text \<open>User 1 has trip 1 in progress and asks to start trip 2.\<close>

theorem second_active_trip_refused_witness:
  "find (\<lambda>t. t_id t = 2 \<and> t_user t = 1)
     (db_trips (example_db [example_trip 1 1 ''IN_PROGRESS'', example_trip 2 1 ''PLANNED''] []))
     = Some (example_trip 2 1 ''PLANNED'')
   \<and> py_upper (py_strip (or_nil (Some '' in_progress ''))) = TRIP_STATUS_IN_PROGRESS
   \<and> unique_active_trip_per_user
       (example_db [example_trip 1 1 ''IN_PROGRESS'', example_trip 2 1 ''PLANNED''] [])
   \<and> update_trip_status 1 2 (Some '' in_progress'')
       (example_db [example_trip 1 1 ''IN_PROGRESS'', example_trip 2 1 ''PLANNED''] []) =
     (\<lparr> uts_success = False, uts_trip = None,
        uts_errors = [''Another trip is already in progress''] \<rparr>,
      example_db [example_trip 1 1 ''IN_PROGRESS'', example_trip 2 1 ''PLANNED''] [])
   \<and> unique_active_trip_per_user
       (snd (update_trip_status 1 2 (Some '' in_progress'')
          (example_db [example_trip 1 1 ''IN_PROGRESS'', example_trip 2 1 ''PLANNED''] [])))"
proof -
  let ?db = "example_db [example_trip 1 1 ''IN_PROGRESS'', example_trip 2 1 ''PLANNED''] []"
  have found: "find (\<lambda>t. t_id t = 2 \<and> t_user t = 1) (db_trips ?db)
                 = Some (example_trip 2 1 ''PLANNED'')"
    by (simp add: example_db_def example_trip_def)
  have norm: "py_upper (py_strip (or_nil (Some '' in_progress ''))) = TRIP_STATUS_IN_PROGRESS"
    "py_upper (py_strip (or_nil (Some '' in_progress''))) = TRIP_STATUS_IN_PROGRESS"
    by (simp_all add: status_example_simps)
  have other: "\<exists>other \<in> set (db_trips ?db). t_user other = 1
      \<and> t_status other = TRIP_STATUS_IN_PROGRESS \<and> t_id other \<noteq> t_id (example_trip 2 1 ''PLANNED'')"
    by (simp add: status_example_simps)
  have inv: "unique_active_trip_per_user ?db"
    by (simp add: unique_active_trip_per_user_def status_example_simps)
  note th = second_active_trip_refused [of 2 1 ?db "example_trip 2 1 ''PLANNED''"
      "Some '' in_progress''"]
  have refused: "update_trip_status 1 2 (Some '' in_progress'') ?db =
     (\<lparr> uts_success = False, uts_trip = None,
        uts_errors = [''Another trip is already in progress''] \<rparr>, ?db)"
    using th found norm(2) other by blast
  have kept: "unique_active_trip_per_user (snd (update_trip_status 1 2 (Some '' in_progress'') ?db))"
    using th inv by blast
  show ?thesis
    using found norm(1) inv refused kept by (intro conjI)
qed

text \<open>
  Claim C9. For a trip of the caller and a valid new status the update succeeds
  unless the new status is \<open>PLANNED\<close> and the trip is not \<open>PLANNED\<close>, or the trip is
  \<open>IN_PROGRESS\<close> and the new status is neither \<open>IN_PROGRESS\<close> nor \<open>COMPLETED\<close>, or the new
  status is \<open>IN_PROGRESS\<close> and another trip of the user is \<open>IN_PROGRESS\<close>; a refusal
  changes nothing. So \<open>COMPLETED\<close> and \<open>CANCELLED\<close> are not terminal: from either, the
  trip may go to \<open>COMPLETED\<close>, to \<open>CANCELLED\<close>, and to \<open>IN_PROGRESS\<close> when no other trip of
  the user is in progress.
\<close>

theorem status_transitions:
  assumes found: "find (\<lambda>t. t_id t = trip_id \<and> t_user t = user) (db_trips db) = Some trip"
    and norm: "py_upper (py_strip (or_nil status)) = new_status"
    and valid: "new_status \<in> {TRIP_STATUS_PLANNED, TRIP_STATUS_IN_PROGRESS,
                              TRIP_STATUS_COMPLETED, TRIP_STATUS_CANCELLED}"
  shows "(uts_success (fst (update_trip_status user trip_id status db)) \<longleftrightarrow>
            \<not> (new_status = TRIP_STATUS_PLANNED \<and> t_status trip \<noteq> TRIP_STATUS_PLANNED)
          \<and> \<not> (t_status trip = TRIP_STATUS_IN_PROGRESS
                \<and> new_status \<noteq> TRIP_STATUS_IN_PROGRESS \<and> new_status \<noteq> TRIP_STATUS_COMPLETED)
          \<and> \<not> (new_status = TRIP_STATUS_IN_PROGRESS
                \<and> (\<exists>other \<in> set (db_trips db). t_user other = user
                      \<and> t_status other = TRIP_STATUS_IN_PROGRESS \<and> t_id other \<noteq> t_id trip)))
       \<and> (uts_success (fst (update_trip_status user trip_id status db)) \<longrightarrow>
            update_trip_status user trip_id status db =
              (\<lparr> uts_success = True, uts_trip = Some (trip\<lparr> t_status := new_status \<rparr>),
                 uts_errors = [] \<rparr>,
               save_trip_status (trip\<lparr> t_status := new_status \<rparr>) db))
       \<and> (\<not> uts_success (fst (update_trip_status user trip_id status db)) \<longrightarrow>
            snd (update_trip_status user trip_id status db) = db)
       \<and> (t_status trip = TRIP_STATUS_COMPLETED \<or> t_status trip = TRIP_STATUS_CANCELLED \<longrightarrow>
            (uts_success (fst (update_trip_status user trip_id status db)) \<longleftrightarrow>
               new_status = TRIP_STATUS_COMPLETED \<or> new_status = TRIP_STATUS_CANCELLED
             \<or> (new_status = TRIP_STATUS_IN_PROGRESS
                 \<and> \<not> (\<exists>other \<in> set (db_trips db). t_user other = user
                      \<and> t_status other = TRIP_STATUS_IN_PROGRESS \<and> t_id other \<noteq> t_id trip))))"
proof -
  define c1 where "c1 \<longleftrightarrow> new_status = TRIP_STATUS_IN_PROGRESS
          \<and> (\<exists>other \<in> set (db_trips db). t_user other = user
                \<and> t_status other = TRIP_STATUS_IN_PROGRESS \<and> t_id other \<noteq> t_id trip)"
  define c2 where "c2 \<longleftrightarrow> t_status trip = TRIP_STATUS_IN_PROGRESS
              \<and> new_status \<notin> {TRIP_STATUS_IN_PROGRESS, TRIP_STATUS_COMPLETED}"
  define c3 where "c3 \<longleftrightarrow> t_status trip \<noteq> TRIP_STATUS_PLANNED
              \<and> new_status = TRIP_STATUS_PLANNED"
  let ?ok = "(\<lparr> uts_success = True, uts_trip = Some (trip\<lparr> t_status := new_status \<rparr>),
                 uts_errors = [] \<rparr>,
               save_trip_status (trip\<lparr> t_status := new_status \<rparr>) db)"
  note cases = update_trip_status_cases [OF found norm valid,
      unfolded c1_def [symmetric] c2_def [symmetric] c3_def [symmetric]]
  have success: "uts_success (fst (update_trip_status user trip_id status db)) \<longleftrightarrow>
                   \<not> c1 \<and> \<not> c2 \<and> \<not> c3"
    unfolding cases by simp
  have ok: "update_trip_status user trip_id status db = ?ok" if "\<not> c1" "\<not> c2" "\<not> c3"
    unfolding cases using that by simp
  have refused: "snd (update_trip_status user trip_id status db) = db" if "c1 \<or> c2 \<or> c3"
    unfolding cases using that by auto
  have names: "TRIP_STATUS_COMPLETED \<noteq> TRIP_STATUS_PLANNED"
    "TRIP_STATUS_CANCELLED \<noteq> TRIP_STATUS_PLANNED"
    "TRIP_STATUS_COMPLETED \<noteq> TRIP_STATUS_IN_PROGRESS"
    "TRIP_STATUS_CANCELLED \<noteq> TRIP_STATUS_IN_PROGRESS"
    "TRIP_STATUS_PLANNED \<noteq> TRIP_STATUS_IN_PROGRESS"
    "TRIP_STATUS_COMPLETED \<noteq> TRIP_STATUS_CANCELLED"
    by (simp_all add: TRIP_STATUS_PLANNED_def TRIP_STATUS_IN_PROGRESS_def
        TRIP_STATUS_COMPLETED_def TRIP_STATUS_CANCELLED_def)
  have part1: "uts_success (fst (update_trip_status user trip_id status db)) \<longleftrightarrow>
            \<not> (new_status = TRIP_STATUS_PLANNED \<and> t_status trip \<noteq> TRIP_STATUS_PLANNED)
          \<and> \<not> (t_status trip = TRIP_STATUS_IN_PROGRESS
                \<and> new_status \<noteq> TRIP_STATUS_IN_PROGRESS \<and> new_status \<noteq> TRIP_STATUS_COMPLETED)
          \<and> \<not> (new_status = TRIP_STATUS_IN_PROGRESS
                \<and> (\<exists>other \<in> set (db_trips db). t_user other = user
                      \<and> t_status other = TRIP_STATUS_IN_PROGRESS \<and> t_id other \<noteq> t_id trip))"
    unfolding success c1_def c2_def c3_def by auto
  have part2: "uts_success (fst (update_trip_status user trip_id status db)) \<longrightarrow>
            update_trip_status user trip_id status db = ?ok"
    unfolding success using ok by blast
  have part3: "\<not> uts_success (fst (update_trip_status user trip_id status db)) \<longrightarrow>
            snd (update_trip_status user trip_id status db) = db"
    unfolding success using refused by blast
  have part4: "t_status trip = TRIP_STATUS_COMPLETED \<or> t_status trip = TRIP_STATUS_CANCELLED \<longrightarrow>
            (uts_success (fst (update_trip_status user trip_id status db)) \<longleftrightarrow>
               new_status = TRIP_STATUS_COMPLETED \<or> new_status = TRIP_STATUS_CANCELLED
             \<or> (new_status = TRIP_STATUS_IN_PROGRESS
                 \<and> \<not> (\<exists>other \<in> set (db_trips db). t_user other = user
                      \<and> t_status other = TRIP_STATUS_IN_PROGRESS \<and> t_id other \<noteq> t_id trip)))"
    unfolding success c1_def c2_def c3_def using valid names by auto
  show ?thesis
    using part1 part2 part3 part4 by (intro conjI)
qed


text \<open>
  A completed trip goes back to \<open>IN_PROGRESS\<close>, a cancelled trip goes to \<open>COMPLETED\<close>,
  and a completed trip may not go back to \<open>PLANNED\<close>.
\<close>

theorem status_transitions_witness:
  "find (\<lambda>t. t_id t = 1 \<and> t_user t = 1)
     (db_trips (example_db [example_trip 1 1 ''COMPLETED'', example_trip 2 1 ''CANCELLED''] []))
     = Some (example_trip 1 1 ''COMPLETED'')
   \<and> py_upper (py_strip (or_nil (Some ''in_progress''))) = ''IN_PROGRESS''
   \<and> ''IN_PROGRESS'' \<in> {TRIP_STATUS_PLANNED, TRIP_STATUS_IN_PROGRESS,
                          TRIP_STATUS_COMPLETED, TRIP_STATUS_CANCELLED}
   \<and> uts_success (fst (update_trip_status 1 1 (Some ''in_progress'')
        (example_db [example_trip 1 1 ''COMPLETED'', example_trip 2 1 ''CANCELLED''] [])))
   \<and> update_trip_status 1 1 (Some ''in_progress'')
        (example_db [example_trip 1 1 ''COMPLETED'', example_trip 2 1 ''CANCELLED''] []) =
      (\<lparr> uts_success = True, uts_trip = Some (example_trip 1 1 ''IN_PROGRESS''),
         uts_errors = [] \<rparr>,
       example_db [example_trip 1 1 ''IN_PROGRESS'', example_trip 2 1 ''CANCELLED''] [])
   \<and> update_trip_status 1 2 (Some ''Completed'')
        (example_db [example_trip 1 1 ''COMPLETED'', example_trip 2 1 ''CANCELLED''] []) =
      (\<lparr> uts_success = True, uts_trip = Some (example_trip 2 1 ''COMPLETED''),
         uts_errors = [] \<rparr>,
       example_db [example_trip 1 1 ''COMPLETED'', example_trip 2 1 ''COMPLETED''] [])
   \<and> update_trip_status 1 1 (Some ''planned'')
        (example_db [example_trip 1 1 ''COMPLETED'', example_trip 2 1 ''CANCELLED''] []) =
      (\<lparr> uts_success = False, uts_trip = None,
         uts_errors = [''Only routes still in planning can be marked as planned.''] \<rparr>,
       example_db [example_trip 1 1 ''COMPLETED'', example_trip 2 1 ''CANCELLED''] [])"
proof -
  let ?db = "example_db [example_trip 1 1 ''COMPLETED'', example_trip 2 1 ''CANCELLED''] []"
  have found: "find (\<lambda>t. t_id t = 1 \<and> t_user t = 1) (db_trips ?db)
                 = Some (example_trip 1 1 ''COMPLETED'')"
    by (simp add: example_db_def example_trip_def)
  have norm: "py_upper (py_strip (or_nil (Some ''in_progress''))) = ''IN_PROGRESS''"
    by (simp add: status_example_simps)
  have valid: "''IN_PROGRESS'' \<in> {TRIP_STATUS_PLANNED, TRIP_STATUS_IN_PROGRESS,
                          TRIP_STATUS_COMPLETED, TRIP_STATUS_CANCELLED}"
    by (simp add: TRIP_STATUS_IN_PROGRESS_def)
  note th = status_transitions [OF found norm valid]
  have free: "\<not> (\<exists>other \<in> set (db_trips ?db). t_user other = 1
      \<and> t_status other = TRIP_STATUS_IN_PROGRESS
      \<and> t_id other \<noteq> t_id (example_trip 1 1 ''COMPLETED''))"
    by (simp add: status_example_simps)
  have state: "t_status (example_trip 1 1 ''COMPLETED'') = TRIP_STATUS_COMPLETED"
    "''IN_PROGRESS'' = TRIP_STATUS_IN_PROGRESS"
    by (simp_all add: status_example_simps)
  have success: "uts_success (fst (update_trip_status 1 1 (Some ''in_progress'') ?db))"
    using th free state by blast
  then have "update_trip_status 1 1 (Some ''in_progress'') ?db =
      (\<lparr> uts_success = True,
         uts_trip = Some ((example_trip 1 1 ''COMPLETED'')\<lparr> t_status := ''IN_PROGRESS'' \<rparr>),
         uts_errors = [] \<rparr>,
       save_trip_status ((example_trip 1 1 ''COMPLETED'')\<lparr> t_status := ''IN_PROGRESS'' \<rparr>) ?db)"
    using th by blast
  then have resumed: "update_trip_status 1 1 (Some ''in_progress'') ?db =
      (\<lparr> uts_success = True, uts_trip = Some (example_trip 1 1 ''IN_PROGRESS''),
         uts_errors = [] \<rparr>,
       example_db [example_trip 1 1 ''IN_PROGRESS'', example_trip 2 1 ''CANCELLED''] [])"
    by (simp add: save_trip_status_def example_db_def example_trip_def)
  have completed: "update_trip_status 1 2 (Some ''Completed'') ?db =
      (\<lparr> uts_success = True, uts_trip = Some (example_trip 2 1 ''COMPLETED''),
         uts_errors = [] \<rparr>,
       example_db [example_trip 1 1 ''COMPLETED'', example_trip 2 1 ''COMPLETED''] [])"
    by (simp add: update_trip_status_def save_trip_status_def status_example_simps Let_def)
  have planned: "update_trip_status 1 1 (Some ''planned'') ?db =
      (\<lparr> uts_success = False, uts_trip = None,
         uts_errors = [''Only routes still in planning can be marked as planned.''] \<rparr>, ?db)"
    by (simp add: update_trip_status_def save_trip_status_def status_example_simps Let_def)
  show ?thesis
    using found norm valid success resumed completed planned by (intro conjI)
qed

end
